theory Spec2Isabelle
  imports Complex_Main
begin

section \<open>Data model of \<open>main.go\<close>\<close>

text \<open>
  The Go value \<open>error\<close>: \<open>errors.New(msg)\<close> with its message, and the errors of the
  libraries by kind: the syntax error of a \<open>strconv\<close> function on an input, and the
  two errors of \<open>structpb\<close>, an invalid UTF-8 string and a type it does not convert.
\<close>

datatype error =
    errors_New string
  | strconv_ErrSyntax string string
  | proto_invalid_UTF8 string
  | proto_invalid_type

text \<open>\<open>type Product struct { ID string; Name string; Price int }\<close>\<close>

record Product =
  ID :: string
  Name :: string
  Price :: int

text \<open>
  \<open>type Config struct\<close>. The type \<open>float64\<close> is the parameter \<open>'f\<close>: the program
  only stores such a value, and every float64 it holds comes from a literal or from a
  library conversion.
\<close>

record 'f Config =
  MetricsApiEndpointUrl :: string
  MetricsApiKey :: string
  DeliveryApiEndpointUrl :: string
  DeliveryApiKey :: string
  OnlyLog :: bool
  ShadowTrafficDeliveryRate :: 'f
  BlockingShadowTraffic :: bool

subsection \<open>The process environment and \<open>strconv\<close>\<close>

type_synonym environ = "string \<rightharpoonup> string"

text \<open>
  A read of the environment is an observable step of the run: each library call returns
  its value together with the events it adds to the run's trace.
\<close>

datatype env_read = Getenv string | LookupEnv string

definition os_Getenv :: "environ \<Rightarrow> string \<Rightarrow> string \<times> env_read list" where
  "os_Getenv env key = ((case env key of None \<Rightarrow> [] | Some v \<Rightarrow> v), [Getenv key])"

definition os_LookupEnv :: "environ \<Rightarrow> string \<Rightarrow> string option \<times> env_read list" where
  "os_LookupEnv env key = (env key, [LookupEnv key])"

text \<open>
  \<open>strconv.ParseBool\<close>: accepts \<open>1, t, T, TRUE, true, True, 0, f, F, FALSE, false, False\<close>;
  any other value is a syntax error.
\<close>

definition ParseBool :: "string \<Rightarrow> error + bool" where
  "ParseBool str =
     (if str \<in> set [''1'', ''t'', ''T'', ''true'', ''TRUE'', ''True''] then Inr True
      else if str \<in> set [''0'', ''f'', ''F'', ''false'', ''FALSE'', ''False''] then Inr False
      else Inl (strconv_ErrSyntax ''ParseBool'' str))"

text \<open>
  \<open>parseBoolEnv\<close> and \<open>parseFloatEnv\<close> of \<open>main.go\<close>. \<open>strconv.ParseFloat(val, 64)\<close> is
  the parameter \<open>ParseFloat\<close>.
\<close>

definition parseBoolEnv :: "environ \<Rightarrow> string \<Rightarrow> bool \<Rightarrow> bool \<times> env_read list" where
  "parseBoolEnv env key defaultValue =
     (case os_LookupEnv env key of
        (None, t) \<Rightarrow> (defaultValue, t)
      | (Some val, t) \<Rightarrow>
          (case ParseBool val of
             Inl err \<Rightarrow> (defaultValue, t)
           | Inr parsed \<Rightarrow> (parsed, t)))"

definition parseFloatEnv ::
  "(string \<Rightarrow> error + 'f) \<Rightarrow> environ \<Rightarrow> string \<Rightarrow> 'f \<Rightarrow> 'f \<times> env_read list" where
  "parseFloatEnv ParseFloat env key defaultValue =
     (case os_LookupEnv env key of
        (None, t) \<Rightarrow> (defaultValue, t)
      | (Some val, t) \<Rightarrow>
          (case ParseFloat val of
             Inl err \<Rightarrow> (defaultValue, t)
           | Inr parsed \<Rightarrow> (parsed, t)))"

text \<open>
  The composite literal \<open>config := Config{...}\<close> at the head of \<open>main\<close>: its seven field
  expressions are evaluated in the order written.
\<close>

definition load_config ::
  "(string \<Rightarrow> error + 'f::zero) \<Rightarrow> environ \<Rightarrow> 'f Config \<times> env_read list" where
  "load_config ParseFloat env =
     (case os_Getenv env ''METRICS_API_ENDPOINT_URL'' of (v1, t1) \<Rightarrow>
      case os_Getenv env ''METRICS_API_KEY'' of (v2, t2) \<Rightarrow>
      case os_Getenv env ''DELIVERY_API_ENDPOINT_URL'' of (v3, t3) \<Rightarrow>
      case os_Getenv env ''DELIVERY_API_KEY'' of (v4, t4) \<Rightarrow>
      case parseBoolEnv env ''ONLY_LOG'' False of (v5, t5) \<Rightarrow>
      case parseFloatEnv ParseFloat env ''SHADOW_TRAFFIC_DELIVERY_RATE'' 0 of (v6, t6) \<Rightarrow>
      case parseBoolEnv env ''BLOCKING_SHADOW_TRAFFIC'' False of (v7, t7) \<Rightarrow>
        (\<lparr>MetricsApiEndpointUrl = v1, MetricsApiKey = v2,
          DeliveryApiEndpointUrl = v3, DeliveryApiKey = v4,
          OnlyLog = v5, ShadowTrafficDeliveryRate = v6, BlockingShadowTraffic = v7\<rparr>,
         t1 @ t2 @ t3 @ t4 @ t5 @ t6 @ t7))"

text \<open>\<open>validateConfig\<close>: \<open>None\<close> is Go's \<open>nil\<close> error.\<close>

definition validateConfig :: "'f Config \<Rightarrow> error option" where
  "validateConfig config =
     (if MetricsApiEndpointUrl config = [] then
        Some (errors_New ''metricsApiEndpointUrl needs to be specified'')
      else if MetricsApiKey config = [] then
        Some (errors_New ''metricsApiKey needs to be specified'')
      else if DeliveryApiEndpointUrl config = [] then
        Some (errors_New ''deliveryApiEndpointUrl needs to be specified'')
      else if DeliveryApiKey config = [] then
        Some (errors_New ''deliveryApiKey needs to be specified'')
      else None)"

subsection \<open>\<open>structpb\<close>: protobuf struct values\<close>

text \<open>
  The Go values that this program hands to \<open>structpb.NewValue\<close> as \<open>any\<close>: \<open>nil\<close>, a
  bool, an int, a float64, a string, a \<open>map[string]any\<close> (a composite literal, its
  entries in the order written), or a value of a type the library does not convert.
\<close>

datatype 'f any =
    any_nil
  | any_bool bool
  | any_int int
  | any_float64 'f
  | any_string string
  | any_map "(string \<times> 'f any) list"
  | any_other

text \<open>\<open>structpb.Value\<close>; a \<open>structpb.Struct\<close> is the list of its fields.\<close>

datatype 'f Value =
    NullValue
  | BoolValue bool
  | NumberValue 'f
  | StringValue string
  | StructValue "(string \<times> 'f Value) list"

type_synonym 'f Struct = "(string \<times> 'f Value) list"

text \<open>
  \<open>utf8.ValidString\<close>, on the bytes of the string: ASCII bytes, and the two-, three-
  and four-byte sequences with their accepted ranges for the second byte.
\<close>

definition continuation :: "nat \<Rightarrow> bool" where
  "continuation b = (128 \<le> b \<and> b \<le> 191)"

fun utf8_Valid :: "nat list \<Rightarrow> bool" where
  "utf8_Valid [] = True"
| "utf8_Valid (b0 # bs) =
     (if b0 < 128 then utf8_Valid bs
      else if 194 \<le> b0 \<and> b0 \<le> 223 then
        (case bs of
           b1 # r \<Rightarrow> continuation b1 \<and> utf8_Valid r
         | _ \<Rightarrow> False)
      else if 224 \<le> b0 \<and> b0 \<le> 239 then
        (case bs of
           b1 # b2 # r \<Rightarrow>
             (if b0 = 224 then 160 else 128) \<le> b1 \<and> b1 \<le> (if b0 = 237 then 159 else 191)
               \<and> continuation b2 \<and> utf8_Valid r
         | _ \<Rightarrow> False)
      else if 240 \<le> b0 \<and> b0 \<le> 244 then
        (case bs of
           b1 # b2 # b3 # r \<Rightarrow>
             (if b0 = 240 then 144 else 128) \<le> b1 \<and> b1 \<le> (if b0 = 244 then 143 else 191)
               \<and> continuation b2 \<and> continuation b3 \<and> utf8_Valid r
         | _ \<Rightarrow> False)
      else False)"

definition utf8_ValidString :: "string \<Rightarrow> bool" where
  "utf8_ValidString s = utf8_Valid (map of_char s)"

text \<open>
  \<open>structpb.NewValue\<close> and \<open>structpb.NewStruct\<close>, after the library's conversion table:
  every number is stored as a float64 \<open>NumberValue\<close>, a string must be valid UTF-8, a
  map becomes a struct when every key is valid UTF-8 and every value converts, any
  other type is an error. The conversion \<open>float64(v)\<close> of an int is the parameter
  \<open>float64\<close>.
\<close>

fun NewValue :: "(int \<Rightarrow> 'f) \<Rightarrow> 'f any \<Rightarrow> error + 'f Value"
  and NewStruct :: "(int \<Rightarrow> 'f) \<Rightarrow> (string \<times> 'f any) list \<Rightarrow> error + 'f Struct" where
  "NewValue float64 any_nil = Inr NullValue"
| "NewValue float64 (any_bool v) = Inr (BoolValue v)"
| "NewValue float64 (any_int v) = Inr (NumberValue (float64 v))"
| "NewValue float64 (any_float64 v) = Inr (NumberValue v)"
| "NewValue float64 (any_string v) =
     (if \<not> utf8_ValidString v then Inl (proto_invalid_UTF8 v)
      else Inr (StringValue v))"
| "NewValue float64 (any_map v) =
     (case NewStruct float64 v of
        Inl err \<Rightarrow> Inl err
      | Inr v2 \<Rightarrow> Inr (StructValue v2))"
| "NewValue float64 any_other = Inl proto_invalid_type"
| "NewStruct float64 [] = Inr []"
| "NewStruct float64 ((k, v) # rest) =
     (if \<not> utf8_ValidString k then Inl (proto_invalid_UTF8 k)
      else
        (case NewValue float64 v of
           Inl err \<Rightarrow> Inl err
         | Inr x \<Rightarrow>
             (case NewStruct float64 rest of
                Inl err \<Rightarrow> Inl err
              | Inr xs \<Rightarrow> Inr ((k, x) # xs))))"

text \<open>\<open>(*Value).GetStructValue\<close>: the struct of a struct value, \<open>nil\<close> for any other.\<close>

fun GetStructValue :: "'f Value \<Rightarrow> 'f Struct option" where
  "GetStructValue (StructValue s) = Some s"
| "GetStructValue _ = None"

subsection \<open>The conversion \<open>float64(v)\<close> of an int\<close>

text \<open>
  Go converts an integer to the nearest float64, a tie going to the even significand; a
  float64 has a significand of 53 bits. \<open>shift_count a\<close> is the number of low bits of
  \<open>a\<close> that do not fit into 53 bits. The float64 is given by its value, a real; an \<open>int\<close>
  has 64 bits on the 64-bit platforms, where every int is within the range of float64.
\<close>

function shift_count :: "int \<Rightarrow> nat" where
  "shift_count a = (if a < 9007199254740992 then 0 else Suc (shift_count (a div 2)))"
  by pat_completeness auto
termination
  by (relation "measure nat") auto

declare shift_count.simps [simp del]

definition float64_of_int :: "int \<Rightarrow> real" where
  "float64_of_int v =
     (let a = \<bar>v\<bar>;
          e = shift_count a;
          q = a div 2 ^ e;
          r = a mod 2 ^ e;
          q' = (if 2 ^ e < 2 * r \<or> (2 * r = 2 ^ e \<and> odd q) then q + 1 else q)
      in of_int (sgn v * (q' * 2 ^ e)))"

subsection \<open>The request and response messages\<close>

text \<open>
  The messages of the schema and of the client library, with the fields this program
  sets or reads; every other field keeps its zero value throughout. A pointer field that
  may be \<open>nil\<close> is an option.
\<close>

datatype 'f Properties_StructField = Properties_Struct "'f Struct option"

record 'f common_Properties =
  StructField :: "'f Properties_StructField"

record 'f delivery_Insertion =
  ContentId :: string
  Properties :: "'f common_Properties option"

record common_UserInfo =
  AnonUserId :: string
  UserId :: string

datatype UseCase = UseCase_UNKNOWN_USE_CASE | UseCase_SEARCH | UseCase_FEED

datatype Paging_Starting = Paging_Cursor string | Paging_Offset int

record delivery_Paging =
  Starting :: Paging_Starting
  Size :: int

record 'f delivery_Request =
  UserInfo :: common_UserInfo
  UseCase :: UseCase
  SearchQuery :: string
  Paging :: delivery_Paging
  DisablePersonalization :: bool
  Properties :: "'f common_Properties option"
  Insertion :: "'f delivery_Insertion list"

record 'f client_DeliveryRequest =
  Request :: "'f delivery_Request"
  OnlyLog :: bool

record 'f delivery_Response =
  Insertion :: "'f delivery_Insertion list"

record 'f client_DeliveryResponse =
  Response :: "'f delivery_Response"
  ClientRequestID :: string
  ExecutionServer :: string

section \<open>The functions of \<open>main.go\<close>\<close>

subsection \<open>The catalog\<close>

definition getProducts :: "Product list" where
  "getProducts =
     [\<lparr>ID = ''1'', Name = ''Product 1'', Price = 100\<rparr>,
      \<lparr>ID = ''2'', Name = ''Product 2'', Price = 200\<rparr>]"

text \<open>
  The loop \<open>for _, product := range products { productsMap[product.ID] = product }\<close>
  of \<open>main\<close>, from the map made so far.
\<close>

fun productsMap_loop :: "(string \<rightharpoonup> Product) \<Rightarrow> Product list \<Rightarrow> (string \<rightharpoonup> Product)" where
  "productsMap_loop productsMap [] = productsMap"
| "productsMap_loop productsMap (product # rest) =
     productsMap_loop (productsMap(ID product \<mapsto> product)) rest"

subsection \<open>What a run does: events and outcomes\<close>

text \<open>
  The arguments of the formatted prints, and the observable events of a run in the order
  they happen. A print is recorded with its format and arguments, as the call is
  written. \<open>Panic\<close> is a \<open>panic(err)\<close>, \<open>Exit\<close> is \<open>os.Exit\<close>.
\<close>

datatype fmt_arg = arg_error error | arg_string string | arg_Product Product

datatype 'f event =
    Env env_read
  | Fprintf_Stderr string "fmt_arg list"
  | Println string
  | Printf string "fmt_arg list"
  | NewPromotedDeliveryClient_call "'f Config"
  | Deliver_call "'f client_DeliveryRequest"

datatype outcome = Returned | Exit int | Panic error

subsection \<open>Building the request\<close>

text \<open>
  \<open>newTestRequestInsertions\<close>: the loop appends one insertion per product to the slice
  built so far; when \<open>structpb.NewValue\<close> fails it prints and panics (\<open>Inl\<close>).
\<close>

fun newTestRequestInsertions_loop ::
  "(int \<Rightarrow> 'f) \<Rightarrow> 'f delivery_Insertion list \<Rightarrow> Product list
     \<Rightarrow> 'f event list \<times> (error + 'f delivery_Insertion list)" where
  "newTestRequestInsertions_loop float64 insertions [] = ([], Inr insertions)"
| "newTestRequestInsertions_loop float64 insertions (product # rest) =
     (case NewValue float64 (any_map [(''price'', any_int (Price product))]) of
        Inl err \<Rightarrow> ([Println ''insertion structpb.NewValue failed''], Inl err)
      | Inr insertionPropsValue \<Rightarrow>
          newTestRequestInsertions_loop float64
            (insertions @
               [\<lparr>ContentId = ID product,
                 delivery_Insertion.Properties =
                   Some \<lparr>StructField = Properties_Struct (GetStructValue insertionPropsValue)\<rparr>\<rparr>])
            rest)"

definition newTestRequestInsertions ::
  "(int \<Rightarrow> 'f) \<Rightarrow> Product list \<Rightarrow> 'f event list \<times> (error + 'f delivery_Insertion list)" where
  "newTestRequestInsertions float64 products =
     newTestRequestInsertions_loop float64 [] products"

text \<open>\<open>newTestRequest\<close>: \<open>Inl\<close> is the \<open>return nil, err\<close>.\<close>

definition newTestRequest ::
  "(int \<Rightarrow> 'f::numeral) \<Rightarrow> 'f delivery_Insertion list \<Rightarrow> bool
     \<Rightarrow> error + 'f client_DeliveryRequest" where
  "newTestRequest float64 insertions onlyLog =
     (case NewValue float64
             (any_map [(''category'', any_string ''topic''), (''priceMin'', any_float64 10)]) of
        Inl err \<Rightarrow> Inl err
      | Inr requestPropsValue \<Rightarrow>
          Inr \<lparr>Request =
                 \<lparr>UserInfo = \<lparr>AnonUserId = ''testAnonUserId1'', UserId = ''testUserId1''\<rparr>,
                  UseCase = UseCase_SEARCH,
                  SearchQuery = ''query'',
                  Paging = \<lparr>Starting = Paging_Offset 0, Size = 3\<rparr>,
                  DisablePersonalization = False,
                  delivery_Request.Properties =
                    Some \<lparr>StructField = Properties_Struct (GetStructValue requestPropsValue)\<rparr>,
                  delivery_Request.Insertion = insertions\<rparr>,
               client_DeliveryRequest.OnlyLog = onlyLog\<rparr>)"

subsection \<open>\<open>main\<close>\<close>

text \<open>
  Everything outside the program that a run depends on: the environment,
  \<open>strconv.ParseFloat\<close>, the conversion \<open>float64(v)\<close> (which is \<open>float64_of_int\<close>
  when a float64 is read as its real value), whether the client builder's
  \<open>Build()\<close> fails for a configuration, and what \<open>Deliver\<close> of the client built from a
  configuration returns for a request.
\<close>

record 'f world =
  os_environ :: environ
  strconv_ParseFloat :: "string \<Rightarrow> error + 'f"
  go_float64 :: "int \<Rightarrow> 'f"
  builder_Build :: "'f Config \<Rightarrow> error option"
  client_Deliver :: "'f Config \<Rightarrow> 'f client_DeliveryRequest \<Rightarrow> error + 'f client_DeliveryResponse"

text \<open>The final loop of \<open>main\<close> over \<open>response.Response.Insertion\<close>.\<close>

fun print_loop :: "(string \<rightharpoonup> Product) \<Rightarrow> 'f delivery_Insertion list \<Rightarrow> 'f event list" where
  "print_loop productsMap [] = []"
| "print_loop productsMap (insertion # rest) =
     (case productsMap (ContentId insertion) of
        Some rerankedProducts \<Rightarrow> Printf ''%v\<newline>'' [arg_Product rerankedProducts]
      | None \<Rightarrow> Printf ''%v\<newline>'' [arg_string (ContentId insertion)])
     # print_loop productsMap rest"

text \<open>The three prints of \<open>main\<close> before that loop.\<close>

definition print_header :: "'f client_DeliveryResponse \<Rightarrow> 'f event list" where
  "print_header response =
     [Printf ''Execution server: %s\<newline>'' [arg_string (ExecutionServer response)],
      Printf ''Client request ID: %s\<newline>'' [arg_string (ClientRequestID response)],
      Printf ''Response\<newline>'' []]"

text \<open>
  \<open>main\<close>, as the trace of the run and how it ends. Each call to the client library is an
  event at the place of the call.
\<close>

definition main :: "'f::{zero,numeral} world \<Rightarrow> 'f event list \<times> outcome" where
  "main w =
     (case load_config (strconv_ParseFloat w) (os_environ w) of (config, reads) \<Rightarrow>
      let t0 = map Env reads in
      (case validateConfig config of
         Some err \<Rightarrow> (t0 @ [Fprintf_Stderr ''Error: %v\<newline>'' [arg_error err]], Exit 1)
       | None \<Rightarrow>
      let t1 = t0 @ [NewPromotedDeliveryClient_call config] in
      (case builder_Build w config of
         Some err \<Rightarrow> (t1 @ [Println ''Error initializing PromotedDeliveryClient''], Panic err)
       | None \<Rightarrow>
      let products = getProducts;
          productsMap = productsMap_loop Map.empty products in
      (case newTestRequestInsertions (go_float64 w) products of
         (t2, Inl err) \<Rightarrow> (t1 @ t2, Panic err)
       | (t2, Inr requestInsertions) \<Rightarrow>
      (case newTestRequest (go_float64 w) requestInsertions (Config.OnlyLog config) of
         Inl err \<Rightarrow> (t1 @ t2 @ [Println ''newTestRequest failed''], Panic err)
       | Inr req \<Rightarrow>
      let t3 = t1 @ t2 @ [Deliver_call req] in
      (case client_Deliver w config req of
         Inl err \<Rightarrow> (t3 @ [Println ''Delivery called failed''], Panic err)
       | Inr response \<Rightarrow>
           (t3 @ print_header response @
            print_loop productsMap (delivery_Response.Insertion (Response response)),
            Returned)))))))"

subsection \<open>The earlier version of \<open>main\<close>\<close>

text \<open>
  The second source file builds the insertions inside \<open>main\<close>, in the same loop that
  fills the map: \<open>insertions = append(insertions, &delivery.Insertion{ContentId:
  product.ID}); productsMap[product.ID] = product\<close>.
\<close>

fun inline_loop ::
  "'f delivery_Insertion list \<times> (string \<rightharpoonup> Product) \<Rightarrow> Product list
     \<Rightarrow> 'f delivery_Insertion list \<times> (string \<rightharpoonup> Product)" where
  "inline_loop (insertions, productsMap) [] = (insertions, productsMap)"
| "inline_loop (insertions, productsMap) (product # rest) =
     inline_loop
       (insertions @ [\<lparr>ContentId = ID product, delivery_Insertion.Properties = None\<rparr>],
        productsMap(ID product \<mapsto> product))
       rest"

section \<open>Reading a run\<close>

text \<open>
  Names for what \<open>main\<close> computes on its way: the configuration it loads, the
  environment reads of loading it, and the request of its lines \<open>requestInsertions :=
  newTestRequestInsertions(products)\<close> and \<open>req, err := newTestRequest(requestInsertions,
  config.OnlyLog)\<close>.
\<close>

definition main_config :: "'f::zero world \<Rightarrow> 'f Config" where
  "main_config w = fst (load_config (strconv_ParseFloat w) (os_environ w))"

definition main_reads :: "'f::zero world \<Rightarrow> env_read list" where
  "main_reads w = snd (load_config (strconv_ParseFloat w) (os_environ w))"

definition main_request :: "'f::{zero,numeral} world \<Rightarrow> error + 'f client_DeliveryRequest" where
  "main_request w =
     (case snd (newTestRequestInsertions (go_float64 w) getProducts) of
        Inl err \<Rightarrow> Inl err
      | Inr requestInsertions \<Rightarrow>
          newTestRequest (go_float64 w) requestInsertions (Config.OnlyLog (main_config w)))"

text \<open>The calls into the client library among the events of a trace.\<close>

fun is_client_call :: "'f event \<Rightarrow> bool" where
  "is_client_call (NewPromotedDeliveryClient_call c) = True"
| "is_client_call (Deliver_call req) = True"
| "is_client_call _ = False"

text \<open>
  The step of the script an event belongs to: 0 loading the configuration, 1 building
  the client, 2 calling the delivery API, 3 printing the response. The error reports
  (\<open>Fprintf\<close> to stderr, \<open>Println\<close>) belong to no step.
\<close>

fun step_of :: "'f event \<Rightarrow> nat option" where
  "step_of (Env r) = Some 0"
| "step_of (NewPromotedDeliveryClient_call c) = Some 1"
| "step_of (Deliver_call req) = Some 2"
| "step_of (Printf fmt args) = Some 3"
| "step_of (Fprintf_Stderr fmt args) = None"
| "step_of (Println s) = None"

fun steps :: "'f event list \<Rightarrow> nat list" where
  "steps [] = []"
| "steps (e # es) = (case step_of e of None \<Rightarrow> steps es | Some n \<Rightarrow> n # steps es)"

text \<open>
  The content identifier that a result line shows: a print with the format \<open>%v\<close> and a
  newline, of a product or of an identifier.
\<close>

fun printed_ContentId :: "'f event \<Rightarrow> string option" where
  "printed_ContentId (Printf fmt [arg_Product product]) =
     (if fmt = ''%v\<newline>'' then Some (ID product) else None)"
| "printed_ContentId (Printf fmt [arg_string s]) =
     (if fmt = ''%v\<newline>'' then Some s else None)"
| "printed_ContentId _ = None"

section \<open>Library calls on the program's constants\<close>

lemma NewValue_price:
  "NewValue f (any_map [(''price'', any_int n)]) = Inr (StructValue [(''price'', NumberValue (f n))])"
  by (simp add: utf8_ValidString_def)

lemma NewValue_request:
  "NewValue f (any_map [(''category'', any_string ''topic''), (''priceMin'', any_float64 x)])
   = Inr (StructValue [(''category'', StringValue ''topic''), (''priceMin'', NumberValue x)])"
  by (simp add: utf8_ValidString_def)

section \<open>The catalog\<close>

lemma productsMap_getProducts:
  "productsMap_loop Map.empty getProducts =
     [''1'' \<mapsto> \<lparr>ID = ''1'', Name = ''Product 1'', Price = 100\<rparr>,
      ''2'' \<mapsto> \<lparr>ID = ''2'', Name = ''Product 2'', Price = 200\<rparr>]"
  by (simp add: getProducts_def)

text \<open>
  C7. The catalog is the list of two products that \<open>getProducts\<close> returns, the product
  with ID 1, name Product 1 and price 100 first and the product with ID 2, name Product 2
  and price 200 second; the map that \<open>main\<close> builds from it has the keys 1 and 2 and no
  other, each mapped to its product.
\<close>

theorem getProducts_catalog:
  "getProducts =
     [\<lparr>ID = ''1'', Name = ''Product 1'', Price = 100\<rparr>,
      \<lparr>ID = ''2'', Name = ''Product 2'', Price = 200\<rparr>]
   \<and> dom (productsMap_loop Map.empty getProducts) = {''1'', ''2''}
   \<and> productsMap_loop Map.empty getProducts ''1''
       = Some \<lparr>ID = ''1'', Name = ''Product 1'', Price = 100\<rparr>
   \<and> productsMap_loop Map.empty getProducts ''2''
       = Some \<lparr>ID = ''2'', Name = ''Product 2'', Price = 200\<rparr>"
proof -
  have keys: "dom (productsMap_loop Map.empty getProducts) = {''1'', ''2''}"
    unfolding productsMap_getProducts by auto
  have first: "productsMap_loop Map.empty getProducts ''1''
       = Some \<lparr>ID = ''1'', Name = ''Product 1'', Price = 100\<rparr>"
    unfolding productsMap_getProducts by simp
  have second: "productsMap_loop Map.empty getProducts ''2''
       = Some \<lparr>ID = ''2'', Name = ''Product 2'', Price = 200\<rparr>"
    unfolding productsMap_getProducts by simp
  from keys first second show ?thesis
    by (simp add: getProducts_def)
qed

section \<open>Configuration\<close>

lemma load_config_reads:
  "snd (load_config PF env) =
     [Getenv ''METRICS_API_ENDPOINT_URL'', Getenv ''METRICS_API_KEY'',
      Getenv ''DELIVERY_API_ENDPOINT_URL'', Getenv ''DELIVERY_API_KEY'',
      LookupEnv ''ONLY_LOG'', LookupEnv ''SHADOW_TRAFFIC_DELIVERY_RATE'',
      LookupEnv ''BLOCKING_SHADOW_TRAFFIC'']"
  by (simp add: load_config_def os_Getenv_def parseBoolEnv_def parseFloatEnv_def os_LookupEnv_def
      split: prod.splits option.splits sum.splits)

lemma load_config_value:
  "fst (load_config PF env) =
     \<lparr>MetricsApiEndpointUrl = fst (os_Getenv env ''METRICS_API_ENDPOINT_URL''),
      MetricsApiKey = fst (os_Getenv env ''METRICS_API_KEY''),
      DeliveryApiEndpointUrl = fst (os_Getenv env ''DELIVERY_API_ENDPOINT_URL''),
      DeliveryApiKey = fst (os_Getenv env ''DELIVERY_API_KEY''),
      OnlyLog = fst (parseBoolEnv env ''ONLY_LOG'' False),
      ShadowTrafficDeliveryRate = fst (parseFloatEnv PF env ''SHADOW_TRAFFIC_DELIVERY_RATE'' 0),
      BlockingShadowTraffic = fst (parseBoolEnv env ''BLOCKING_SHADOW_TRAFFIC'' False)\<rparr>"
  by (simp add: load_config_def split: prod.splits)

lemma parseBoolEnv_value:
  "fst (parseBoolEnv env key d) =
     (case env key of
        None \<Rightarrow> d
      | Some val \<Rightarrow> (case ParseBool val of Inl err \<Rightarrow> d | Inr parsed \<Rightarrow> parsed))"
  by (simp add: parseBoolEnv_def os_LookupEnv_def split: option.splits sum.splits)

lemma parseFloatEnv_value:
  "fst (parseFloatEnv PF env key x) =
     (case env key of
        None \<Rightarrow> x
      | Some val \<Rightarrow> (case PF val of Inl err \<Rightarrow> x | Inr parsed \<Rightarrow> parsed))"
  by (simp add: parseFloatEnv_def os_LookupEnv_def split: option.splits sum.splits)

text \<open>
  C2, as the code has it. The configuration is populated from seven environment
  variables, read in this order: the two endpoint URLs and the two API keys by
  \<open>os.Getenv\<close>, as strings without coercion and empty when unset, then \<open>ONLY_LOG\<close>,
  \<open>SHADOW_TRAFFIC_DELIVERY_RATE\<close> and \<open>BLOCKING_SHADOW_TRAFFIC\<close> by \<open>os.LookupEnv\<close>, coerced
  to bool, float64 and bool with the defaults false, 0.0 and false. Two environments
  that agree on these seven variables give the same configuration.
\<close>

theorem load_config_seven_variables:
  "snd (load_config ParseFloat env) =
     [Getenv ''METRICS_API_ENDPOINT_URL'', Getenv ''METRICS_API_KEY'',
      Getenv ''DELIVERY_API_ENDPOINT_URL'', Getenv ''DELIVERY_API_KEY'',
      LookupEnv ''ONLY_LOG'', LookupEnv ''SHADOW_TRAFFIC_DELIVERY_RATE'',
      LookupEnv ''BLOCKING_SHADOW_TRAFFIC'']
   \<and> length (snd (load_config ParseFloat env)) = 7
   \<and> fst (load_config ParseFloat env) =
     \<lparr>MetricsApiEndpointUrl =
        (case env ''METRICS_API_ENDPOINT_URL'' of None \<Rightarrow> [] | Some v \<Rightarrow> v),
      MetricsApiKey = (case env ''METRICS_API_KEY'' of None \<Rightarrow> [] | Some v \<Rightarrow> v),
      DeliveryApiEndpointUrl =
        (case env ''DELIVERY_API_ENDPOINT_URL'' of None \<Rightarrow> [] | Some v \<Rightarrow> v),
      DeliveryApiKey = (case env ''DELIVERY_API_KEY'' of None \<Rightarrow> [] | Some v \<Rightarrow> v),
      OnlyLog = fst (parseBoolEnv env ''ONLY_LOG'' False),
      ShadowTrafficDeliveryRate =
        fst (parseFloatEnv ParseFloat env ''SHADOW_TRAFFIC_DELIVERY_RATE'' 0),
      BlockingShadowTraffic = fst (parseBoolEnv env ''BLOCKING_SHADOW_TRAFFIC'' False)\<rparr>
   \<and> (\<forall>env'.
         (\<forall>key \<in> set [''METRICS_API_ENDPOINT_URL'', ''METRICS_API_KEY'',
                       ''DELIVERY_API_ENDPOINT_URL'', ''DELIVERY_API_KEY'', ''ONLY_LOG'',
                       ''SHADOW_TRAFFIC_DELIVERY_RATE'', ''BLOCKING_SHADOW_TRAFFIC''].
            env' key = env key)
         \<longrightarrow> fst (load_config ParseFloat env') = fst (load_config ParseFloat env))"
proof -
  have reads: "snd (load_config ParseFloat env) =
     [Getenv ''METRICS_API_ENDPOINT_URL'', Getenv ''METRICS_API_KEY'',
      Getenv ''DELIVERY_API_ENDPOINT_URL'', Getenv ''DELIVERY_API_KEY'',
      LookupEnv ''ONLY_LOG'', LookupEnv ''SHADOW_TRAFFIC_DELIVERY_RATE'',
      LookupEnv ''BLOCKING_SHADOW_TRAFFIC'']"
    by (rule load_config_reads)
  then have seven: "length (snd (load_config ParseFloat env)) = 7"
    by simp
  have config: "fst (load_config ParseFloat env) =
     \<lparr>MetricsApiEndpointUrl =
        (case env ''METRICS_API_ENDPOINT_URL'' of None \<Rightarrow> [] | Some v \<Rightarrow> v),
      MetricsApiKey = (case env ''METRICS_API_KEY'' of None \<Rightarrow> [] | Some v \<Rightarrow> v),
      DeliveryApiEndpointUrl =
        (case env ''DELIVERY_API_ENDPOINT_URL'' of None \<Rightarrow> [] | Some v \<Rightarrow> v),
      DeliveryApiKey = (case env ''DELIVERY_API_KEY'' of None \<Rightarrow> [] | Some v \<Rightarrow> v),
      OnlyLog = fst (parseBoolEnv env ''ONLY_LOG'' False),
      ShadowTrafficDeliveryRate =
        fst (parseFloatEnv ParseFloat env ''SHADOW_TRAFFIC_DELIVERY_RATE'' 0),
      BlockingShadowTraffic = fst (parseBoolEnv env ''BLOCKING_SHADOW_TRAFFIC'' False)\<rparr>"
    by (simp add: load_config_value os_Getenv_def)
  have agree: "\<forall>env'.
         (\<forall>key \<in> set [''METRICS_API_ENDPOINT_URL'', ''METRICS_API_KEY'',
                       ''DELIVERY_API_ENDPOINT_URL'', ''DELIVERY_API_KEY'', ''ONLY_LOG'',
                       ''SHADOW_TRAFFIC_DELIVERY_RATE'', ''BLOCKING_SHADOW_TRAFFIC''].
            env' key = env key)
         \<longrightarrow> fst (load_config ParseFloat env') = fst (load_config ParseFloat env)"
    by (simp add: load_config_value os_Getenv_def parseBoolEnv_value parseFloatEnv_value)
  from reads seven config agree show ?thesis
    by blast
qed

text \<open>
  The theorem on two environments that differ in a variable the program does not read.
\<close>

theorem load_config_seven_variables_witness:
  "fst (load_config (Inl \<circ> errors_New :: string \<Rightarrow> error + int)
          [''ONLY_LOG'' \<mapsto> ''1'', ''HOME'' \<mapsto> ''/root''])
   = fst (load_config (Inl \<circ> errors_New) [''ONLY_LOG'' \<mapsto> ''1''])"
proof -
  let ?env = "[''ONLY_LOG'' \<mapsto> ''1'']"
  let ?env' = "[''ONLY_LOG'' \<mapsto> ''1'', ''HOME'' \<mapsto> ''/root'']"
  have "\<forall>key \<in> set [''METRICS_API_ENDPOINT_URL'', ''METRICS_API_KEY'',
                       ''DELIVERY_API_ENDPOINT_URL'', ''DELIVERY_API_KEY'', ''ONLY_LOG'',
                       ''SHADOW_TRAFFIC_DELIVERY_RATE'', ''BLOCKING_SHADOW_TRAFFIC''].
            ?env' key = ?env key"
    by simp
  with load_config_seven_variables
         [of "Inl \<circ> errors_New :: string \<Rightarrow> error + int" ?env]
  show ?thesis by blast
qed

text \<open>
  C2 as stated fails: with an empty environment and a float parser that rejects every
  string, loading the configuration reads seven variables, not four.
\<close>

theorem load_config_reads_counterexample:
  "length (snd (load_config (Inl \<circ> errors_New :: string \<Rightarrow> error + int) Map.empty)) = 7
   \<and> length (snd (load_config (Inl \<circ> errors_New :: string \<Rightarrow> error + int) Map.empty)) \<noteq> 4"
  by (simp add: load_config_reads)

text \<open>
  C3, as the code has it. \<open>parseBoolEnv\<close> and \<open>parseFloatEnv\<close> return the default when
  the variable is absent and when its value fails to parse, and the parsed value
  otherwise; a result different from the default therefore comes from a variable that
  is present and parses, but a parsed value may also equal the default. With
  \<open>ONLY_LOG\<close>, \<open>SHADOW_TRAFFIC_DELIVERY_RATE\<close> and \<open>BLOCKING_SHADOW_TRAFFIC\<close> unset the
  configuration has OnlyLog false, ShadowTrafficDeliveryRate 0.0 and
  BlockingShadowTraffic false.
\<close>

theorem parseEnv_default_or_parsed:
  "(env key = None \<longrightarrow>
      fst (parseBoolEnv env key d) = d \<and> fst (parseFloatEnv ParseFloat env key x) = x)
   \<and> (\<forall>val err. env key = Some val \<and> ParseBool val = Inl err \<longrightarrow>
         fst (parseBoolEnv env key d) = d)
   \<and> (\<forall>val err. env key = Some val \<and> ParseFloat val = Inl err \<longrightarrow>
         fst (parseFloatEnv ParseFloat env key x) = x)
   \<and> (\<forall>val parsed. env key = Some val \<and> ParseBool val = Inr parsed \<longrightarrow>
         fst (parseBoolEnv env key d) = parsed)
   \<and> (\<forall>val parsed. env key = Some val \<and> ParseFloat val = Inr parsed \<longrightarrow>
         fst (parseFloatEnv ParseFloat env key x) = parsed)
   \<and> (fst (parseBoolEnv env key d) \<noteq> d \<longrightarrow>
         (\<exists>val. env key = Some val \<and> ParseBool val = Inr (\<not> d)))
   \<and> (fst (parseFloatEnv ParseFloat env key x) \<noteq> x \<longrightarrow>
         (\<exists>val. env key = Some val
            \<and> ParseFloat val = Inr (fst (parseFloatEnv ParseFloat env key x))))
   \<and> (env ''ONLY_LOG'' = None \<and> env ''SHADOW_TRAFFIC_DELIVERY_RATE'' = None
        \<and> env ''BLOCKING_SHADOW_TRAFFIC'' = None \<longrightarrow>
         Config.OnlyLog (fst (load_config ParseFloat env)) = False
         \<and> ShadowTrafficDeliveryRate (fst (load_config ParseFloat env)) = 0
         \<and> BlockingShadowTraffic (fst (load_config ParseFloat env)) = False)"
proof -
  have b: "fst (parseBoolEnv env key d) \<noteq> d \<longrightarrow>
         (\<exists>val. env key = Some val \<and> ParseBool val = Inr (\<not> d))"
    by (auto simp add: parseBoolEnv_value split: option.splits sum.splits)
  have f: "fst (parseFloatEnv ParseFloat env key x) \<noteq> x \<longrightarrow>
         (\<exists>val. env key = Some val
            \<and> ParseFloat val = Inr (fst (parseFloatEnv ParseFloat env key x)))"
    by (auto simp add: parseFloatEnv_value split: option.splits sum.splits)
  have u: "env ''ONLY_LOG'' = None \<and> env ''SHADOW_TRAFFIC_DELIVERY_RATE'' = None
        \<and> env ''BLOCKING_SHADOW_TRAFFIC'' = None \<longrightarrow>
         Config.OnlyLog (fst (load_config ParseFloat env)) = False
         \<and> ShadowTrafficDeliveryRate (fst (load_config ParseFloat env)) = 0
         \<and> BlockingShadowTraffic (fst (load_config ParseFloat env)) = False"
    by (simp add: load_config_value parseBoolEnv_value parseFloatEnv_value)
  show ?thesis
    using b f u by (simp add: parseBoolEnv_value parseFloatEnv_value)
qed

text \<open>
  The theorem at work: a value that parses, a value that does not, a float parser that
  accepts (it returns the length of the string) and one that rejects, and the three
  variables unset.
\<close>

theorem parseEnv_default_or_parsed_witness:
  "fst (parseBoolEnv [''ONLY_LOG'' \<mapsto> ''true''] ''ONLY_LOG'' False) = True
   \<and> fst (parseFloatEnv (Inr \<circ> int \<circ> length) [''ONLY_LOG'' \<mapsto> ''true''] ''ONLY_LOG'' 0) = 4
   \<and> fst (parseBoolEnv [''ONLY_LOG'' \<mapsto> ''maybe''] ''ONLY_LOG'' True) = True
   \<and> fst (parseFloatEnv (Inl \<circ> errors_New) [''ONLY_LOG'' \<mapsto> ''maybe''] ''ONLY_LOG'' (7::int)) = 7
   \<and> Config.OnlyLog (fst (load_config (Inl \<circ> errors_New :: string \<Rightarrow> error + int) Map.empty))
       = False
   \<and> ShadowTrafficDeliveryRate
        (fst (load_config (Inl \<circ> errors_New :: string \<Rightarrow> error + int) Map.empty)) = 0
   \<and> BlockingShadowTraffic
        (fst (load_config (Inl \<circ> errors_New :: string \<Rightarrow> error + int) Map.empty)) = False"
proof -
  let ?yes = "[''ONLY_LOG'' \<mapsto> ''true'']"
  let ?bad = "[''ONLY_LOG'' \<mapsto> ''maybe'']"
  let ?accept = "Inr \<circ> int \<circ> length :: string \<Rightarrow> error + int"
  let ?reject = "Inl \<circ> errors_New :: string \<Rightarrow> error + int"
  have "?yes ''ONLY_LOG'' = Some ''true'' \<and> ParseBool ''true'' = Inr True"
    by (simp add: ParseBool_def)
  with parseEnv_default_or_parsed [of ?yes "''ONLY_LOG''" False ?accept 0]
  have a: "fst (parseBoolEnv ?yes ''ONLY_LOG'' False) = True"
    by blast
  have "?yes ''ONLY_LOG'' = Some ''true'' \<and> ?accept ''true'' = Inr 4"
    by simp
  with parseEnv_default_or_parsed [of ?yes "''ONLY_LOG''" False ?accept 0]
  have b: "fst (parseFloatEnv ?accept ?yes ''ONLY_LOG'' 0) = 4"
    by blast
  have "?bad ''ONLY_LOG'' = Some ''maybe''
          \<and> ParseBool ''maybe'' = Inl (strconv_ErrSyntax ''ParseBool'' ''maybe'')"
    by (simp add: ParseBool_def)
  with parseEnv_default_or_parsed [of ?bad "''ONLY_LOG''" True ?reject 7]
  have c: "fst (parseBoolEnv ?bad ''ONLY_LOG'' True) = True"
    by blast
  have "?bad ''ONLY_LOG'' = Some ''maybe'' \<and> ?reject ''maybe'' = Inl (errors_New ''maybe'')"
    by simp
  with parseEnv_default_or_parsed [of ?bad "''ONLY_LOG''" True ?reject 7]
  have d: "fst (parseFloatEnv ?reject ?bad ''ONLY_LOG'' 7) = 7"
    by blast
  have "Map.empty ''ONLY_LOG'' = (None :: string option)
          \<and> Map.empty ''SHADOW_TRAFFIC_DELIVERY_RATE'' = (None :: string option)
          \<and> Map.empty ''BLOCKING_SHADOW_TRAFFIC'' = (None :: string option)"
    by simp
  with parseEnv_default_or_parsed [of Map.empty "''ONLY_LOG''" False ?reject 0]
  have e: "Config.OnlyLog (fst (load_config ?reject Map.empty)) = False
         \<and> ShadowTrafficDeliveryRate (fst (load_config ?reject Map.empty)) = 0
         \<and> BlockingShadowTraffic (fst (load_config ?reject Map.empty)) = False"
    by blast
  from a b c d e show ?thesis by blast
qed

text \<open>
  C3 as stated fails in its "only if": with \<open>ONLY_LOG=false\<close> and the default false,
  \<open>parseBoolEnv\<close> returns the default value although the variable is present and
  parses.
\<close>

theorem parseBoolEnv_iff_counterexample:
  "\<not> (fst (parseBoolEnv [''ONLY_LOG'' \<mapsto> ''false''] ''ONLY_LOG'' False) = False
       \<longleftrightarrow> (case [''ONLY_LOG'' \<mapsto> ''false''] ''ONLY_LOG'' of
              None \<Rightarrow> True
            | Some val \<Rightarrow> isl (ParseBool val)))"
  by (simp add: parseBoolEnv_def os_LookupEnv_def ParseBool_def)

section \<open>Building the request\<close>

lemma newTestRequestInsertions_loop_value:
  "newTestRequestInsertions_loop f acc ps =
     ([], Inr (acc @ map (\<lambda>p. \<lparr>ContentId = ID p,
                 delivery_Insertion.Properties =
                   Some \<lparr>StructField =
                     Properties_Struct (Some [(''price'', NumberValue (f (Price p)))])\<rparr>\<rparr>) ps))"
proof (induction ps arbitrary: acc)
  case Nil
  show ?case by simp
next
  case (Cons p ps)
  show ?case
    unfolding newTestRequestInsertions_loop.simps NewValue_price
    by (simp add: Cons.IH)
qed

lemma newTestRequestInsertions_value:
  "newTestRequestInsertions f ps =
     ([], Inr (map (\<lambda>p. \<lparr>ContentId = ID p,
                 delivery_Insertion.Properties =
                   Some \<lparr>StructField =
                     Properties_Struct (Some [(''price'', NumberValue (f (Price p)))])\<rparr>\<rparr>) ps))"
  by (simp add: newTestRequestInsertions_def newTestRequestInsertions_loop_value)

lemma newTestRequest_value:
  "newTestRequest float64 insertions onlyLog =
     Inr \<lparr>Request =
            \<lparr>UserInfo = \<lparr>AnonUserId = ''testAnonUserId1'', UserId = ''testUserId1''\<rparr>,
             UseCase = UseCase_SEARCH,
             SearchQuery = ''query'',
             Paging = \<lparr>Starting = Paging_Offset 0, Size = 3\<rparr>,
             DisablePersonalization = False,
             delivery_Request.Properties =
               Some \<lparr>StructField =
                 Properties_Struct
                   (Some [(''category'', StringValue ''topic''), (''priceMin'', NumberValue 10)])\<rparr>,
             delivery_Request.Insertion = insertions\<rparr>,
          client_DeliveryRequest.OnlyLog = onlyLog\<rparr>"
  unfolding newTestRequest_def NewValue_request by simp

text \<open>
  C4. For every insertion list and every onlyLog flag \<open>newTestRequest\<close> succeeds, and
  the request it returns has the user info testAnonUserId1 and testUserId1, the use case
  SEARCH, the search query "query", paging at offset 0 with size 3, personalization not
  disabled, the request properties category "topic" and priceMin 10.0, the given
  insertions and the given onlyLog flag; the result is a function of the two arguments
  alone.
\<close>

theorem newTestRequest_static:
  "newTestRequest float64 insertions onlyLog =
     Inr \<lparr>Request =
            \<lparr>UserInfo = \<lparr>AnonUserId = ''testAnonUserId1'', UserId = ''testUserId1''\<rparr>,
             UseCase = UseCase_SEARCH,
             SearchQuery = ''query'',
             Paging = \<lparr>Starting = Paging_Offset 0, Size = 3\<rparr>,
             DisablePersonalization = False,
             delivery_Request.Properties =
               Some \<lparr>StructField =
                 Properties_Struct
                   (Some [(''category'', StringValue ''topic''), (''priceMin'', NumberValue 10)])\<rparr>,
             delivery_Request.Insertion = insertions\<rparr>,
          client_DeliveryRequest.OnlyLog = onlyLog\<rparr>
   \<and> newTestRequest float64 insertions onlyLog = newTestRequest float64' insertions onlyLog"
  (is "_ = ?request \<and> _")
proof -
  have built: "newTestRequest conversion insertions onlyLog = ?request" for conversion
  proof -
    have "NewValue conversion
            (any_map [(''category'', any_string ''topic''), (''priceMin'', any_float64 10)])
          = Inr (StructValue
                   [(''category'', StringValue ''topic''), (''priceMin'', NumberValue 10)])"
      by (rule NewValue_request)
    then show ?thesis
      unfolding newTestRequest_def by simp
  qed
  from built [of float64] built [of float64'] show ?thesis
    by simp
qed

text \<open>
  The conversion is exact up to \<open>2 ^ 53\<close> in absolute value, and not beyond: the odd
  number after \<open>2 ^ 53\<close> becomes \<open>2 ^ 53\<close>.
\<close>

lemma shift_count_small: "a < 9007199254740992 \<Longrightarrow> shift_count a = 0"
  by (simp add: shift_count.simps)

lemma shift_count_one:
  "shift_count 9007199254740992 = 1" "shift_count 9007199254740993 = 1"
proof -
  have "shift_count 4503599627370496 = 0"
    by (rule shift_count_small) simp
  then show "shift_count 9007199254740992 = 1" "shift_count 9007199254740993 = 1"
    by (subst shift_count.simps, simp)+
qed

lemma float64_of_int_exact:
  assumes "\<bar>v\<bar> \<le> 2 ^ 53"
  shows "float64_of_int v = of_int v"
proof (cases "\<bar>v\<bar> < 9007199254740992")
  case True
  then have "shift_count \<bar>v\<bar> = 0"
    by (rule shift_count_small)
  then have "float64_of_int v = of_int (sgn v * \<bar>v\<bar>)"
    by (simp add: float64_of_int_def Let_def)
  then show ?thesis
    by (simp add: mult_sgn_abs)
next
  case False
  with assms have "\<bar>v\<bar> = 9007199254740992"
    by simp
  then have "float64_of_int v = of_int (sgn v * \<bar>v\<bar>)"
    by (simp add: float64_of_int_def Let_def shift_count_one)
  then show ?thesis
    by (simp add: mult_sgn_abs)
qed

lemma float64_of_int_inexact: "float64_of_int 9007199254740993 = 9007199254740992"
  by (simp add: float64_of_int_def Let_def shift_count_one)

text \<open>
  C9, as the code has it. For every product list \<open>newTestRequestInsertions\<close> returns,
  without panicking and without printing, a list of the same length whose i-th insertion
  has the ContentId of the i-th product's ID and a properties struct whose only entry,
  "price", is that product's Price converted to float64, as \<open>structpb\<close> stores every
  number; the entry equals the Price whenever the Price is at most \<open>2 ^ 53\<close> in absolute
  value.
\<close>

theorem newTestRequestInsertions_map:
  "\<exists>insertions.
     newTestRequestInsertions float64_of_int products = ([], Inr insertions)
     \<and> length insertions = length products
     \<and> (\<forall>i < length products.
           ContentId (insertions ! i) = ID (products ! i)
           \<and> delivery_Insertion.Properties (insertions ! i) =
               Some \<lparr>StructField =
                 Properties_Struct
                   (Some [(''price'', NumberValue (float64_of_int (Price (products ! i))))])\<rparr>
           \<and> (\<bar>Price (products ! i)\<bar> \<le> 2 ^ 53 \<longrightarrow>
                delivery_Insertion.Properties (insertions ! i) =
                  Some \<lparr>StructField =
                    Properties_Struct
                      (Some [(''price'', NumberValue (of_int (Price (products ! i))))])\<rparr>))"
proof -
  let ?insertion = "\<lambda>p. \<lparr>ContentId = ID p,
                 delivery_Insertion.Properties =
                   Some \<lparr>StructField =
                     Properties_Struct
                       (Some [(''price'', NumberValue (float64_of_int (Price p)))])\<rparr>\<rparr>"
  have returned:
    "newTestRequestInsertions float64_of_int products = ([], Inr (map ?insertion products))"
    by (rule newTestRequestInsertions_value)
  have same_length: "length (map ?insertion products) = length products"
    by simp
  have pointwise: "\<forall>i < length products.
           ContentId (map ?insertion products ! i) = ID (products ! i)
           \<and> delivery_Insertion.Properties (map ?insertion products ! i) =
               Some \<lparr>StructField =
                 Properties_Struct
                   (Some [(''price'', NumberValue (float64_of_int (Price (products ! i))))])\<rparr>
           \<and> (\<bar>Price (products ! i)\<bar> \<le> 2 ^ 53 \<longrightarrow>
                delivery_Insertion.Properties (map ?insertion products ! i) =
                  Some \<lparr>StructField =
                    Properties_Struct
                      (Some [(''price'', NumberValue (of_int (Price (products ! i))))])\<rparr>)"
    by (simp add: float64_of_int_exact)
  from returned same_length pointwise show ?thesis
    by blast
qed

text \<open>The theorem on the catalog of the program, whose prices are 100 and 200.\<close>

theorem newTestRequestInsertions_map_witness:
  "\<exists>insertions.
     newTestRequestInsertions float64_of_int getProducts = ([], Inr insertions)
     \<and> length insertions = 2
     \<and> ContentId (insertions ! 0) = ''1''
     \<and> ContentId (insertions ! 1) = ''2''
     \<and> delivery_Insertion.Properties (insertions ! 1) =
         Some \<lparr>StructField = Properties_Struct (Some [(''price'', NumberValue 200)])\<rparr>"
proof -
  from newTestRequestInsertions_map [of getProducts] obtain insertions where
    r: "newTestRequestInsertions float64_of_int getProducts = ([], Inr insertions)"
    and l: "length insertions = length getProducts"
    and p: "\<forall>i < length getProducts.
           ContentId (insertions ! i) = ID (getProducts ! i)
           \<and> delivery_Insertion.Properties (insertions ! i) =
               Some \<lparr>StructField =
                 Properties_Struct
                   (Some [(''price'', NumberValue (float64_of_int (Price (getProducts ! i))))])\<rparr>
           \<and> (\<bar>Price (getProducts ! i)\<bar> \<le> 2 ^ 53 \<longrightarrow>
                delivery_Insertion.Properties (insertions ! i) =
                  Some \<lparr>StructField =
                    Properties_Struct
                      (Some [(''price'', NumberValue (of_int (Price (getProducts ! i))))])\<rparr>)"
    by blast
  have products: "getProducts ! 0 = \<lparr>ID = ''1'', Name = ''Product 1'', Price = 100\<rparr>"
    "getProducts ! 1 = \<lparr>ID = ''2'', Name = ''Product 2'', Price = 200\<rparr>"
    "length getProducts = 2"
    by (simp_all add: getProducts_def)
  have "(0::nat) < length getProducts"
    unfolding products by simp
  from p [rule_format, OF this] have a: "ContentId (insertions ! 0) = ''1''"
    unfolding products by simp
  have "(1::nat) < length getProducts"
    unfolding products by simp
  from p [rule_format, OF this] have b: "ContentId (insertions ! 1) = ''2''"
    unfolding products by simp
  have "(1::nat) < length getProducts"
    unfolding products by simp
  from p [rule_format, OF this] have c: "\<bar>Price (getProducts ! 1)\<bar> \<le> 2 ^ 53 \<longrightarrow>
                delivery_Insertion.Properties (insertions ! 1) =
                  Some \<lparr>StructField =
                    Properties_Struct
                      (Some [(''price'', NumberValue (of_int (Price (getProducts ! 1))))])\<rparr>"
    by blast
  have "\<bar>Price (getProducts ! 1)\<bar> \<le> 2 ^ 53"
    unfolding products by simp
  with c have "delivery_Insertion.Properties (insertions ! 1) =
                  Some \<lparr>StructField =
                    Properties_Struct
                      (Some [(''price'', NumberValue (of_int (Price (getProducts ! 1))))])\<rparr>"
    by blast
  then have d: "delivery_Insertion.Properties (insertions ! 1) =
         Some \<lparr>StructField = Properties_Struct (Some [(''price'', NumberValue 200)])\<rparr>"
    unfolding products by simp
  from l have e: "length insertions = 2"
    unfolding products .
  from r e a b d show ?thesis
    by blast
qed

text \<open>
  C9 as stated fails: for a product whose Price is \<open>2 ^ 53 + 1\<close> the "price" entry of
  its insertion is \<open>2 ^ 53\<close>, not the Price.
\<close>

theorem newTestRequestInsertions_price_counterexample:
  "snd (newTestRequestInsertions float64_of_int
          [\<lparr>ID = ''3'', Name = ''Product 3'', Price = 9007199254740993\<rparr>])
     = Inr [\<lparr>ContentId = ''3'',
             delivery_Insertion.Properties =
               Some \<lparr>StructField =
                 Properties_Struct (Some [(''price'', NumberValue 9007199254740992)])\<rparr>\<rparr>]
   \<and> NumberValue 9007199254740992
       \<noteq> NumberValue
           (real_of_int (Price \<lparr>ID = ''3'', Name = ''Product 3'', Price = 9007199254740993\<rparr>))"
  by (simp add: newTestRequestInsertions_value float64_of_int_inexact)

lemma inline_loop_value:
  "inline_loop (acc, m) ps =
     (acc @ map (\<lambda>p. \<lparr>ContentId = ID p, delivery_Insertion.Properties = None\<rparr>) ps,
      productsMap_loop m ps)"
  by (induction ps arbitrary: acc m) simp_all

text \<open>
  C10. For the same product list, the insertions that \<open>newTestRequestInsertions\<close>
  builds and the insertions that the earlier \<open>main\<close> builds inline have the same length
  and the same ContentId at every position; the inline ones are the others with the
  properties left out.
\<close>

theorem inline_insertions_same_ids:
  "\<exists>insertions.
     snd (newTestRequestInsertions float64 products) = Inr insertions
     \<and> length (fst (inline_loop ([], Map.empty) products)) = length insertions
     \<and> map ContentId (fst (inline_loop ([], Map.empty) products)) = map ContentId insertions
     \<and> fst (inline_loop ([], Map.empty) products) =
         map (\<lambda>insertion. insertion\<lparr>delivery_Insertion.Properties := None\<rparr>) insertions"
proof -
  let ?insertion = "\<lambda>p. \<lparr>ContentId = ID p,
                 delivery_Insertion.Properties =
                   Some \<lparr>StructField =
                     Properties_Struct (Some [(''price'', NumberValue (float64 (Price p)))])\<rparr>\<rparr>"
  have returned: "snd (newTestRequestInsertions float64 products) = Inr (map ?insertion products)"
    by (simp add: newTestRequestInsertions_value)
  have inline: "fst (inline_loop ([], Map.empty) products)
      = map (\<lambda>p. \<lparr>ContentId = ID p, delivery_Insertion.Properties = None\<rparr>) products"
    by (simp add: inline_loop_value)
  have same_length:
    "length (fst (inline_loop ([], Map.empty) products)) = length (map ?insertion products)"
    unfolding inline by simp
  have same_ids: "map ContentId (fst (inline_loop ([], Map.empty) products))
      = map ContentId (map ?insertion products)"
    unfolding inline by simp
  have without: "fst (inline_loop ([], Map.empty) products)
      = map (\<lambda>insertion. insertion\<lparr>delivery_Insertion.Properties := None\<rparr>)
          (map ?insertion products)"
    unfolding inline by simp
  from returned same_length same_ids without show ?thesis
    by blast
qed

section \<open>The runs of \<open>main\<close>\<close>

lemma load_config_pair:
  "load_config (strconv_ParseFloat w) (os_environ w) = (main_config w, main_reads w)"
  by (simp add: main_config_def main_reads_def)

lemma main_request_eq:
  "main_request w =
     newTestRequest (go_float64 w)
       (map (\<lambda>p. \<lparr>ContentId = ID p,
                 delivery_Insertion.Properties =
                   Some \<lparr>StructField =
                     Properties_Struct (Some [(''price'', NumberValue (go_float64 w (Price p)))])\<rparr>\<rparr>)
          getProducts)
       (Config.OnlyLog (main_config w))"
  by (simp add: main_request_def newTestRequestInsertions_value)

lemma main_request_ok: "\<exists>req. main_request w = Inr req"
  by (simp add: main_request_eq newTestRequest_value)

lemma main_invalid:
  assumes "validateConfig (main_config w) = Some err"
  shows "main w =
     (map Env (main_reads w) @ [Fprintf_Stderr ''Error: %v\<newline>'' [arg_error err]], Exit 1)"
  unfolding main_def load_config_pair using assms by simp

lemma main_build_fails:
  assumes "validateConfig (main_config w) = None"
    and "builder_Build w (main_config w) = Some err"
  shows "main w =
     (map Env (main_reads w) @ [NewPromotedDeliveryClient_call (main_config w),
        Println ''Error initializing PromotedDeliveryClient''], Panic err)"
  unfolding main_def load_config_pair using assms by (simp add: Let_def)

lemma main_deliver_fails:
  assumes "validateConfig (main_config w) = None"
    and "builder_Build w (main_config w) = None"
    and "main_request w = Inr req"
    and "client_Deliver w (main_config w) req = Inl err"
  shows "main w =
     (map Env (main_reads w) @ [NewPromotedDeliveryClient_call (main_config w),
        Deliver_call req, Println ''Delivery called failed''], Panic err)"
  unfolding main_def load_config_pair using assms
  by (simp add: Let_def main_request_eq newTestRequestInsertions_value)

lemma main_success:
  assumes "validateConfig (main_config w) = None"
    and "builder_Build w (main_config w) = None"
    and "main_request w = Inr req"
    and "client_Deliver w (main_config w) req = Inr response"
  shows "main w =
     (map Env (main_reads w) @ [NewPromotedDeliveryClient_call (main_config w),
        Deliver_call req] @ print_header response @
        print_loop (productsMap_loop Map.empty getProducts)
          (delivery_Response.Insertion (Response response)), Returned)"
  unfolding main_def load_config_pair using assms
  by (simp add: Let_def main_request_eq newTestRequestInsertions_value)

lemma no_client_call_reads: "filter is_client_call (map Env rs) = []"
  by (induction rs) simp_all

text \<open>
  C8. \<open>validateConfig\<close> returns an error exactly when one of MetricsApiEndpointUrl,
  MetricsApiKey, DeliveryApiEndpointUrl and DeliveryApiKey is empty, and the error names
  the first empty one in that order. When it returns an error, \<open>main\<close> reports it on
  stderr and exits with status 1, and the run has no call into the client library: no
  client is built and no request is sent.
\<close>

theorem validateConfig_first_empty:
  "(validateConfig config \<noteq> None \<longleftrightarrow>
      MetricsApiEndpointUrl config = [] \<or> MetricsApiKey config = []
      \<or> DeliveryApiEndpointUrl config = [] \<or> DeliveryApiKey config = [])
   \<and> validateConfig config =
       map_option (\<lambda>(name, v). errors_New (name @ '' needs to be specified''))
         (find (\<lambda>(name, v). v = [])
            [(''metricsApiEndpointUrl'', MetricsApiEndpointUrl config),
             (''metricsApiKey'', MetricsApiKey config),
             (''deliveryApiEndpointUrl'', DeliveryApiEndpointUrl config),
             (''deliveryApiKey'', DeliveryApiKey config)])
   \<and> (\<forall>err. validateConfig (main_config w) = Some err \<longrightarrow>
         main w =
           (map Env (main_reads w) @ [Fprintf_Stderr ''Error: %v\<newline>'' [arg_error err]],
            Exit 1)
         \<and> filter is_client_call (fst (main w)) = [])"
proof -
  have a: "validateConfig config \<noteq> None \<longleftrightarrow>
      MetricsApiEndpointUrl config = [] \<or> MetricsApiKey config = []
      \<or> DeliveryApiEndpointUrl config = [] \<or> DeliveryApiKey config = []"
    by (simp add: validateConfig_def)
  have b: "validateConfig config =
       map_option (\<lambda>(name, v). errors_New (name @ '' needs to be specified''))
         (find (\<lambda>(name, v). v = [])
            [(''metricsApiEndpointUrl'', MetricsApiEndpointUrl config),
             (''metricsApiKey'', MetricsApiKey config),
             (''deliveryApiEndpointUrl'', DeliveryApiEndpointUrl config),
             (''deliveryApiKey'', DeliveryApiKey config)])"
    by (simp add: validateConfig_def)
  have c: "\<forall>err. validateConfig (main_config w) = Some err \<longrightarrow>
         main w =
           (map Env (main_reads w) @ [Fprintf_Stderr ''Error: %v\<newline>'' [arg_error err]],
            Exit 1)
         \<and> filter is_client_call (fst (main w)) = []"
    by (simp add: main_invalid no_client_call_reads)
  from a b c show ?thesis by blast
qed

text \<open>
  The theorem on a configuration whose second and third fields are empty, and on a run
  whose environment sets only \<open>METRICS_API_KEY\<close>.
\<close>

theorem validateConfig_first_empty_witness:
  "validateConfig
     \<lparr>MetricsApiEndpointUrl = ''https://metrics.example/log'', MetricsApiKey = [],
      DeliveryApiEndpointUrl = [], DeliveryApiKey = ''key'',
      OnlyLog = False, ShadowTrafficDeliveryRate = 0::int, BlockingShadowTraffic = False\<rparr>
     = Some (errors_New ''metricsApiKey needs to be specified'')
   \<and> snd (main \<lparr>os_environ = [''METRICS_API_KEY'' \<mapsto> ''k''],
                strconv_ParseFloat = Inl \<circ> errors_New,
                go_float64 = id,
                builder_Build = Map.empty,
                client_Deliver = (\<lambda>c req. Inl (errors_New ''unreachable''))\<rparr>) = Exit 1
   \<and> filter is_client_call
        (fst (main \<lparr>os_environ = [''METRICS_API_KEY'' \<mapsto> ''k''],
                strconv_ParseFloat = Inl \<circ> errors_New,
                go_float64 = id,
                builder_Build = Map.empty,
                client_Deliver = (\<lambda>c req. Inl (errors_New ''unreachable''))\<rparr>)) = []"
proof -
  let ?w = "\<lparr>os_environ = [''METRICS_API_KEY'' \<mapsto> ''k''],
                strconv_ParseFloat = Inl \<circ> errors_New,
                go_float64 = id,
                builder_Build = Map.empty,
                client_Deliver = (\<lambda>c req. Inl (errors_New ''unreachable''))\<rparr> :: int world"
  let ?c = "\<lparr>MetricsApiEndpointUrl = ''https://metrics.example/log'', MetricsApiKey = [],
      DeliveryApiEndpointUrl = [], DeliveryApiKey = ''key'',
      OnlyLog = False, ShadowTrafficDeliveryRate = 0::int, BlockingShadowTraffic = False\<rparr>"
  note t = validateConfig_first_empty [of ?c ?w]
  have v: "validateConfig (main_config ?w)
             = Some (errors_New ''metricsApiEndpointUrl needs to be specified'')"
    by (simp add: main_config_def load_config_value os_Getenv_def validateConfig_def)
  from t v have r: "snd (main ?w) = Exit 1 \<and> filter is_client_call (fst (main ?w)) = []"
    by (metis snd_conv)
  from t have "validateConfig ?c =
       map_option (\<lambda>(name, v). errors_New (name @ '' needs to be specified''))
         (find (\<lambda>(name, v). v = [])
            [(''metricsApiEndpointUrl'', MetricsApiEndpointUrl ?c),
             (''metricsApiKey'', MetricsApiKey ?c),
             (''deliveryApiEndpointUrl'', DeliveryApiEndpointUrl ?c),
             (''deliveryApiKey'', DeliveryApiKey ?c)])"
    by blast
  then have n: "validateConfig ?c = Some (errors_New ''metricsApiKey needs to be specified'')"
    by simp
  from r n show ?thesis by blast
qed

section \<open>Printing the response\<close>

lemma length_print_loop: "length (print_loop pm ins) = length ins"
  by (induction ins) simp_all

lemma print_loop_nth:
  "i < length ins \<Longrightarrow>
   print_loop pm ins ! i =
     (case pm (ContentId (ins ! i)) of
        Some product \<Rightarrow> Printf ''%v\<newline>'' [arg_Product product]
      | None \<Rightarrow> Printf ''%v\<newline>'' [arg_string (ContentId (ins ! i))])"
proof (induction ins arbitrary: i)
  case Nil
  then show ?case by simp
next
  case (Cons x xs)
  show ?case
  proof (cases i)
    case 0
    then show ?thesis by (simp split: option.splits)
  next
    case (Suc j)
    with Cons.prems have "j < length xs" by simp
    with Cons.IH Suc show ?thesis by (simp split: option.splits)
  qed
qed

lemma print_loop_single_prints:
  "e \<in> set (print_loop pm ins) \<Longrightarrow> \<exists>arg. e = Printf ''%v\<newline>'' [arg]"
  by (induction ins) (auto split: option.splits)

lemma printed_ContentId_print_loop:
  assumes "\<And>k product. pm k = Some product \<Longrightarrow> ID product = k"
  shows "map printed_ContentId (print_loop pm ins)
           = map (\<lambda>insertion. Some (ContentId insertion)) ins"
  using assms by (induction ins) (auto split: option.splits)

lemma catalog_keys:
  "productsMap_loop Map.empty getProducts k = Some product \<Longrightarrow> ID product = k"
  by (auto simp add: productsMap_getProducts split: if_splits)

text \<open>
  C1. For every list of response insertions, the loop of \<open>main\<close> prints for the i-th
  insertion the product that the catalog map holds under its ContentId when the
  ContentId is a key of the map (the keys are 1 and 2), and the ContentId string itself
  otherwise: the loop has a line for every insertion, whatever its ContentId. A run in
  which validation, the client builder and \<open>Deliver\<close> succeed ends with these lines for
  the insertions of the response.
\<close>

theorem print_loop_lookup:
  "length (print_loop (productsMap_loop Map.empty getProducts) insertions) = length insertions
   \<and> (\<forall>i < length insertions.
         print_loop (productsMap_loop Map.empty getProducts) insertions ! i =
           (case productsMap_loop Map.empty getProducts (ContentId (insertions ! i)) of
              Some product \<Rightarrow> Printf ''%v\<newline>'' [arg_Product product]
            | None \<Rightarrow> Printf ''%v\<newline>'' [arg_string (ContentId (insertions ! i))])
         \<and> print_loop (productsMap_loop Map.empty getProducts) insertions ! i =
           (if ContentId (insertions ! i) = ''1'' then
              Printf ''%v\<newline>'' [arg_Product \<lparr>ID = ''1'', Name = ''Product 1'', Price = 100\<rparr>]
            else if ContentId (insertions ! i) = ''2'' then
              Printf ''%v\<newline>'' [arg_Product \<lparr>ID = ''2'', Name = ''Product 2'', Price = 200\<rparr>]
            else Printf ''%v\<newline>'' [arg_string (ContentId (insertions ! i))]))
   \<and> (\<forall>req response.
         validateConfig (main_config w) = None \<and> builder_Build w (main_config w) = None
         \<and> main_request w = Inr req \<and> client_Deliver w (main_config w) req = Inr response \<longrightarrow>
         main w =
           (map Env (main_reads w) @
            [NewPromotedDeliveryClient_call (main_config w), Deliver_call req] @
            print_header response @
            print_loop (productsMap_loop Map.empty getProducts)
              (delivery_Response.Insertion (Response response)),
            Returned))"
proof -
  have a: "\<forall>i < length insertions.
         print_loop (productsMap_loop Map.empty getProducts) insertions ! i =
           (case productsMap_loop Map.empty getProducts (ContentId (insertions ! i)) of
              Some product \<Rightarrow> Printf ''%v\<newline>'' [arg_Product product]
            | None \<Rightarrow> Printf ''%v\<newline>'' [arg_string (ContentId (insertions ! i))])"
    by (simp add: print_loop_nth)
  have b: "\<forall>i < length insertions.
         print_loop (productsMap_loop Map.empty getProducts) insertions ! i =
           (if ContentId (insertions ! i) = ''1'' then
              Printf ''%v\<newline>'' [arg_Product \<lparr>ID = ''1'', Name = ''Product 1'', Price = 100\<rparr>]
            else if ContentId (insertions ! i) = ''2'' then
              Printf ''%v\<newline>'' [arg_Product \<lparr>ID = ''2'', Name = ''Product 2'', Price = 200\<rparr>]
            else Printf ''%v\<newline>'' [arg_string (ContentId (insertions ! i))])"
    by (simp add: print_loop_nth productsMap_getProducts)
  have c: "\<forall>req response.
         validateConfig (main_config w) = None \<and> builder_Build w (main_config w) = None
         \<and> main_request w = Inr req \<and> client_Deliver w (main_config w) req = Inr response \<longrightarrow>
         main w =
           (map Env (main_reads w) @
            [NewPromotedDeliveryClient_call (main_config w), Deliver_call req] @
            print_header response @
            print_loop (productsMap_loop Map.empty getProducts)
              (delivery_Response.Insertion (Response response)),
            Returned)"
    using main_success by blast
  from a b c length_print_loop show ?thesis by blast
qed

text \<open>
  The theorem on a run with the four required variables set, a builder that succeeds
  and a \<open>Deliver\<close> whose response lists product 2, an unknown identifier and product 1.
\<close>

theorem print_loop_lookup_witness:
  "main \<lparr>os_environ =
           [''METRICS_API_ENDPOINT_URL'' \<mapsto> ''m'', ''METRICS_API_KEY'' \<mapsto> ''mk'',
            ''DELIVERY_API_ENDPOINT_URL'' \<mapsto> ''d'', ''DELIVERY_API_KEY'' \<mapsto> ''dk''],
         strconv_ParseFloat = Inl \<circ> errors_New,
         go_float64 = id,
         builder_Build = Map.empty,
         client_Deliver = (\<lambda>c req. Inr
           \<lparr>Response = \<lparr>delivery_Response.Insertion =
              [\<lparr>ContentId = ''2'', delivery_Insertion.Properties = None\<rparr>,
               \<lparr>ContentId = ''cached'', delivery_Insertion.Properties = None\<rparr>,
               \<lparr>ContentId = ''1'', delivery_Insertion.Properties = None\<rparr>]\<rparr>,
            ClientRequestID = ''r1'', ExecutionServer = ''API''\<rparr>)\<rparr>
   = (map Env
        [Getenv ''METRICS_API_ENDPOINT_URL'', Getenv ''METRICS_API_KEY'',
         Getenv ''DELIVERY_API_ENDPOINT_URL'', Getenv ''DELIVERY_API_KEY'',
         LookupEnv ''ONLY_LOG'', LookupEnv ''SHADOW_TRAFFIC_DELIVERY_RATE'',
         LookupEnv ''BLOCKING_SHADOW_TRAFFIC''] @
      [NewPromotedDeliveryClient_call
         \<lparr>MetricsApiEndpointUrl = ''m'', MetricsApiKey = ''mk'',
          DeliveryApiEndpointUrl = ''d'', DeliveryApiKey = ''dk'',
          OnlyLog = False, ShadowTrafficDeliveryRate = 0::int, BlockingShadowTraffic = False\<rparr>,
       Deliver_call
         \<lparr>Request =
            \<lparr>UserInfo = \<lparr>AnonUserId = ''testAnonUserId1'', UserId = ''testUserId1''\<rparr>,
             UseCase = UseCase_SEARCH,
             SearchQuery = ''query'',
             Paging = \<lparr>Starting = Paging_Offset 0, Size = 3\<rparr>,
             DisablePersonalization = False,
             delivery_Request.Properties =
               Some \<lparr>StructField =
                 Properties_Struct
                   (Some [(''category'', StringValue ''topic''), (''priceMin'', NumberValue 10)])\<rparr>,
             delivery_Request.Insertion =
               [\<lparr>ContentId = ''1'',
                 delivery_Insertion.Properties =
                   Some \<lparr>StructField =
                     Properties_Struct (Some [(''price'', NumberValue 100)])\<rparr>\<rparr>,
                \<lparr>ContentId = ''2'',
                 delivery_Insertion.Properties =
                   Some \<lparr>StructField =
                     Properties_Struct (Some [(''price'', NumberValue 200)])\<rparr>\<rparr>]\<rparr>,
          client_DeliveryRequest.OnlyLog = False\<rparr>,
       Printf ''Execution server: %s\<newline>'' [arg_string ''API''],
       Printf ''Client request ID: %s\<newline>'' [arg_string ''r1''],
       Printf ''Response\<newline>'' [],
       Printf ''%v\<newline>'' [arg_Product \<lparr>ID = ''2'', Name = ''Product 2'', Price = 200\<rparr>],
       Printf ''%v\<newline>'' [arg_string ''cached''],
       Printf ''%v\<newline>'' [arg_Product \<lparr>ID = ''1'', Name = ''Product 1'', Price = 100\<rparr>]],
      Returned)"
proof -
  let ?ins = "[\<lparr>ContentId = ''2'', delivery_Insertion.Properties = None\<rparr>,
               \<lparr>ContentId = ''cached'', delivery_Insertion.Properties = None\<rparr>,
               \<lparr>ContentId = ''1'', delivery_Insertion.Properties = None\<rparr>]
              :: int delivery_Insertion list"
  let ?response = "\<lparr>Response = \<lparr>delivery_Response.Insertion = ?ins\<rparr>,
            ClientRequestID = ''r1'', ExecutionServer = ''API''\<rparr>"
  let ?w = "\<lparr>os_environ =
           [''METRICS_API_ENDPOINT_URL'' \<mapsto> ''m'', ''METRICS_API_KEY'' \<mapsto> ''mk'',
            ''DELIVERY_API_ENDPOINT_URL'' \<mapsto> ''d'', ''DELIVERY_API_KEY'' \<mapsto> ''dk''],
         strconv_ParseFloat = Inl \<circ> errors_New,
         go_float64 = id,
         builder_Build = Map.empty,
         client_Deliver = (\<lambda>c req. Inr ?response)\<rparr> :: int world"
  let ?pm = "productsMap_loop Map.empty getProducts"
  note t = print_loop_lookup [of ?ins ?w]
  have cfg: "main_config ?w =
         \<lparr>MetricsApiEndpointUrl = ''m'', MetricsApiKey = ''mk'',
          DeliveryApiEndpointUrl = ''d'', DeliveryApiKey = ''dk'',
          OnlyLog = False, ShadowTrafficDeliveryRate = 0, BlockingShadowTraffic = False\<rparr>"
    by (simp add: main_config_def load_config_value os_Getenv_def parseBoolEnv_value
        parseFloatEnv_value)
  have v: "validateConfig (main_config ?w) = None"
    unfolding cfg by (simp add: validateConfig_def)
  have b: "builder_Build ?w (main_config ?w) = None"
    by simp
  obtain req where r: "main_request ?w = Inr req"
    using main_request_ok by blast
  have req: "req = \<lparr>Request =
            \<lparr>UserInfo = \<lparr>AnonUserId = ''testAnonUserId1'', UserId = ''testUserId1''\<rparr>,
             UseCase = UseCase_SEARCH,
             SearchQuery = ''query'',
             Paging = \<lparr>Starting = Paging_Offset 0, Size = 3\<rparr>,
             DisablePersonalization = False,
             delivery_Request.Properties =
               Some \<lparr>StructField =
                 Properties_Struct
                   (Some [(''category'', StringValue ''topic''), (''priceMin'', NumberValue 10)])\<rparr>,
             delivery_Request.Insertion =
               [\<lparr>ContentId = ''1'',
                 delivery_Insertion.Properties =
                   Some \<lparr>StructField =
                     Properties_Struct (Some [(''price'', NumberValue 100)])\<rparr>\<rparr>,
                \<lparr>ContentId = ''2'',
                 delivery_Insertion.Properties =
                   Some \<lparr>StructField =
                     Properties_Struct (Some [(''price'', NumberValue 200)])\<rparr>\<rparr>]\<rparr>,
          client_DeliveryRequest.OnlyLog = False\<rparr>"
    using r unfolding main_request_eq newTestRequest_value cfg
    by (simp add: getProducts_def)
  have d: "client_Deliver ?w (main_config ?w) req = Inr ?response"
    by simp
  from t v b r d have m: "main ?w =
           (map Env (main_reads ?w) @
            [NewPromotedDeliveryClient_call (main_config ?w), Deliver_call req] @
            print_header ?response @
            print_loop ?pm (delivery_Response.Insertion (Response ?response)),
            Returned)"
    by blast
  have len: "length (print_loop ?pm ?ins) = 3"
    using t by simp
  have l: "(0::nat) < length ?ins \<and> 1 < length ?ins \<and> 2 < length ?ins" by simp
  from t l have
    "print_loop ?pm ?ins ! 0 =
           (if ContentId (?ins ! 0) = ''1'' then
              Printf ''%v\<newline>'' [arg_Product \<lparr>ID = ''1'', Name = ''Product 1'', Price = 100\<rparr>]
            else if ContentId (?ins ! 0) = ''2'' then
              Printf ''%v\<newline>'' [arg_Product \<lparr>ID = ''2'', Name = ''Product 2'', Price = 200\<rparr>]
            else Printf ''%v\<newline>'' [arg_string (ContentId (?ins ! 0))])"
    by blast
  then have l0: "print_loop ?pm ?ins ! 0 =
     Printf ''%v\<newline>'' [arg_Product \<lparr>ID = ''2'', Name = ''Product 2'', Price = 200\<rparr>]"
    by simp
  from t l have
    "print_loop ?pm ?ins ! 1 =
           (if ContentId (?ins ! 1) = ''1'' then
              Printf ''%v\<newline>'' [arg_Product \<lparr>ID = ''1'', Name = ''Product 1'', Price = 100\<rparr>]
            else if ContentId (?ins ! 1) = ''2'' then
              Printf ''%v\<newline>'' [arg_Product \<lparr>ID = ''2'', Name = ''Product 2'', Price = 200\<rparr>]
            else Printf ''%v\<newline>'' [arg_string (ContentId (?ins ! 1))])"
    by blast
  then have l1: "print_loop ?pm ?ins ! 1 = Printf ''%v\<newline>'' [arg_string ''cached'']"
    by simp
  from t l have
    "print_loop ?pm ?ins ! 2 =
           (if ContentId (?ins ! 2) = ''1'' then
              Printf ''%v\<newline>'' [arg_Product \<lparr>ID = ''1'', Name = ''Product 1'', Price = 100\<rparr>]
            else if ContentId (?ins ! 2) = ''2'' then
              Printf ''%v\<newline>'' [arg_Product \<lparr>ID = ''2'', Name = ''Product 2'', Price = 200\<rparr>]
            else Printf ''%v\<newline>'' [arg_string (ContentId (?ins ! 2))])"
    by blast
  then have l2: "print_loop ?pm ?ins ! 2 =
     Printf ''%v\<newline>'' [arg_Product \<lparr>ID = ''1'', Name = ''Product 1'', Price = 100\<rparr>]"
    by simp
  have three: "\<And>xs :: int event list. length xs = 3 \<Longrightarrow> xs = [xs ! 0, xs ! 1, xs ! 2]"
    by (auto simp add: length_Suc_conv numeral_3_eq_3)
  have lines: "print_loop ?pm ?ins =
     [Printf ''%v\<newline>'' [arg_Product \<lparr>ID = ''2'', Name = ''Product 2'', Price = 200\<rparr>],
      Printf ''%v\<newline>'' [arg_string ''cached''],
      Printf ''%v\<newline>'' [arg_Product \<lparr>ID = ''1'', Name = ''Product 1'', Price = 100\<rparr>]]"
    using three [OF len] l0 l1 l2 by simp
  have reads: "main_reads ?w =
        [Getenv ''METRICS_API_ENDPOINT_URL'', Getenv ''METRICS_API_KEY'',
         Getenv ''DELIVERY_API_ENDPOINT_URL'', Getenv ''DELIVERY_API_KEY'',
         LookupEnv ''ONLY_LOG'', LookupEnv ''SHADOW_TRAFFIC_DELIVERY_RATE'',
         LookupEnv ''BLOCKING_SHADOW_TRAFFIC'']"
    by (simp add: main_reads_def load_config_reads)
  have "main ?w =
           (map Env (main_reads ?w) @
            [NewPromotedDeliveryClient_call (main_config ?w), Deliver_call req] @
            print_header ?response @ print_loop ?pm ?ins,
            Returned)"
    using m by (simp del: print_loop.simps)
  then show ?thesis
    unfolding lines reads cfg req print_header_def by simp
qed

lemma printing_events:
  "filter (\<lambda>e. step_of e = Some 3) (map Env rs) = []"
  "filter (\<lambda>e. step_of e = Some 3) (print_header response) = print_header response"
  "filter (\<lambda>e. step_of e = Some 3) (print_loop pm ins) = print_loop pm ins"
proof -
  show "filter (\<lambda>e. step_of e = Some 3) (map Env rs) = []"
    by (induction rs) simp_all
  show "filter (\<lambda>e. step_of e = Some 3) (print_header response) = print_header response"
    by (simp add: print_header_def)
  show "filter (\<lambda>e. step_of e = Some 3) (print_loop pm ins) = print_loop pm ins"
    by (induction ins) (simp_all split: option.splits)
qed

text \<open>
  C5. The program neither reorders nor filters: for every response, the result lines are
  one print per insertion of the response, and the content identifiers they show are
  the ContentIds of the insertions in the order of the response. In a run in which
  validation, the client builder and \<open>Deliver\<close> succeed, the prints of the run are the
  three header prints followed by these lines.
\<close>

theorem main_prints_in_response_order:
  "length (print_loop (productsMap_loop Map.empty getProducts) insertions) = length insertions
   \<and> map printed_ContentId (print_loop (productsMap_loop Map.empty getProducts) insertions)
       = map (\<lambda>insertion. Some (ContentId insertion)) insertions
   \<and> (\<forall>e \<in> set (print_loop (productsMap_loop Map.empty getProducts) insertions).
         \<exists>arg. e = Printf ''%v\<newline>'' [arg])
   \<and> (\<forall>req response.
         validateConfig (main_config w) = None \<and> builder_Build w (main_config w) = None
         \<and> main_request w = Inr req \<and> client_Deliver w (main_config w) req = Inr response \<longrightarrow>
         snd (main w) = Returned
         \<and> filter (\<lambda>e. step_of e = Some 3) (fst (main w)) =
             print_header response @
             print_loop (productsMap_loop Map.empty getProducts)
               (delivery_Response.Insertion (Response response)))"
proof -
  have a: "map printed_ContentId (print_loop (productsMap_loop Map.empty getProducts) insertions)
       = map (\<lambda>insertion. Some (ContentId insertion)) insertions"
    using catalog_keys by (rule printed_ContentId_print_loop)
  have b: "\<forall>e \<in> set (print_loop (productsMap_loop Map.empty getProducts) insertions).
         \<exists>arg. e = Printf ''%v\<newline>'' [arg]"
    using print_loop_single_prints by blast
  have c: "\<forall>req response.
         validateConfig (main_config w) = None \<and> builder_Build w (main_config w) = None
         \<and> main_request w = Inr req \<and> client_Deliver w (main_config w) req = Inr response \<longrightarrow>
         snd (main w) = Returned
         \<and> filter (\<lambda>e. step_of e = Some 3) (fst (main w)) =
             print_header response @
             print_loop (productsMap_loop Map.empty getProducts)
               (delivery_Response.Insertion (Response response))"
    by (simp add: main_success printing_events)
  from a b c length_print_loop show ?thesis by blast
qed

text \<open>
  The theorem on a run whose response lists product 2, an unknown identifier and
  product 1: the prints of the run show, after the three header prints, these three
  identifiers in this order.
\<close>

theorem main_prints_in_response_order_witness:
  "snd (main \<lparr>os_environ =
           [''METRICS_API_ENDPOINT_URL'' \<mapsto> ''m'', ''METRICS_API_KEY'' \<mapsto> ''mk'',
            ''DELIVERY_API_ENDPOINT_URL'' \<mapsto> ''d'', ''DELIVERY_API_KEY'' \<mapsto> ''dk''],
         strconv_ParseFloat = Inl \<circ> errors_New,
         go_float64 = id,
         builder_Build = Map.empty,
         client_Deliver = (\<lambda>c req. Inr
           \<lparr>Response = \<lparr>delivery_Response.Insertion =
              [\<lparr>ContentId = ''2'', delivery_Insertion.Properties = None\<rparr>,
               \<lparr>ContentId = ''cached'', delivery_Insertion.Properties = None\<rparr>,
               \<lparr>ContentId = ''1'', delivery_Insertion.Properties = None\<rparr>]\<rparr>,
            ClientRequestID = ''r1'', ExecutionServer = ''API''\<rparr>)\<rparr>) = Returned
   \<and> map printed_ContentId
       (filter (\<lambda>e. step_of e = Some 3)
          (fst (main \<lparr>os_environ =
           [''METRICS_API_ENDPOINT_URL'' \<mapsto> ''m'', ''METRICS_API_KEY'' \<mapsto> ''mk'',
            ''DELIVERY_API_ENDPOINT_URL'' \<mapsto> ''d'', ''DELIVERY_API_KEY'' \<mapsto> ''dk''],
         strconv_ParseFloat = Inl \<circ> errors_New,
         go_float64 = (id :: int \<Rightarrow> int),
         builder_Build = Map.empty,
         client_Deliver = (\<lambda>c req. Inr
           \<lparr>Response = \<lparr>delivery_Response.Insertion =
              [\<lparr>ContentId = ''2'', delivery_Insertion.Properties = None\<rparr>,
               \<lparr>ContentId = ''cached'', delivery_Insertion.Properties = None\<rparr>,
               \<lparr>ContentId = ''1'', delivery_Insertion.Properties = None\<rparr>]\<rparr>,
            ClientRequestID = ''r1'', ExecutionServer = ''API''\<rparr>)\<rparr>)))
     = [None, None, None, Some ''2'', Some ''cached'', Some ''1'']
   \<and> (\<exists>arg.
         print_loop (productsMap_loop Map.empty getProducts)
           [\<lparr>ContentId = ''2'',
             delivery_Insertion.Properties = (None :: int common_Properties option)\<rparr>,
            \<lparr>ContentId = ''cached'', delivery_Insertion.Properties = None\<rparr>,
            \<lparr>ContentId = ''1'', delivery_Insertion.Properties = None\<rparr>] ! 1
         = (Printf ''%v\<newline>'' [arg] :: int event))"
proof -
  let ?ins = "[\<lparr>ContentId = ''2'', delivery_Insertion.Properties = None\<rparr>,
               \<lparr>ContentId = ''cached'', delivery_Insertion.Properties = None\<rparr>,
               \<lparr>ContentId = ''1'', delivery_Insertion.Properties = None\<rparr>]
              :: int delivery_Insertion list"
  let ?response = "\<lparr>Response = \<lparr>delivery_Response.Insertion = ?ins\<rparr>,
            ClientRequestID = ''r1'', ExecutionServer = ''API''\<rparr>"
  let ?w = "\<lparr>os_environ =
           [''METRICS_API_ENDPOINT_URL'' \<mapsto> ''m'', ''METRICS_API_KEY'' \<mapsto> ''mk'',
            ''DELIVERY_API_ENDPOINT_URL'' \<mapsto> ''d'', ''DELIVERY_API_KEY'' \<mapsto> ''dk''],
         strconv_ParseFloat = Inl \<circ> errors_New,
         go_float64 = id,
         builder_Build = Map.empty,
         client_Deliver = (\<lambda>c req. Inr ?response)\<rparr> :: int world"
  let ?pm = "productsMap_loop Map.empty getProducts"
  note t = main_prints_in_response_order [of ?ins ?w]
  have v: "validateConfig (main_config ?w) = None"
    by (simp add: main_config_def load_config_value os_Getenv_def validateConfig_def)
  have b: "builder_Build ?w (main_config ?w) = None"
    by simp
  obtain req where r: "main_request ?w = Inr req"
    using main_request_ok by blast
  have d: "client_Deliver ?w (main_config ?w) req = Inr ?response"
    by simp
  from t v b r d have m: "snd (main ?w) = Returned
         \<and> filter (\<lambda>e. step_of e = Some 3) (fst (main ?w)) =
             print_header ?response @
             print_loop ?pm (delivery_Response.Insertion (Response ?response))"
    by blast
  then have f: "filter (\<lambda>e. step_of e = Some 3) (fst (main ?w)) =
             print_header ?response @ print_loop ?pm ?ins"
    by (simp del: print_loop.simps)
  from t have "map printed_ContentId (print_loop ?pm ?ins)
       = map (\<lambda>insertion. Some (ContentId insertion)) ?ins"
    by blast
  then have ids: "map printed_ContentId (print_loop ?pm ?ins)
       = [Some ''2'', Some ''cached'', Some ''1'']"
    by (simp del: print_loop.simps)
  have shown: "map printed_ContentId (filter (\<lambda>e. step_of e = Some 3) (fst (main ?w)))
     = [None, None, None, Some ''2'', Some ''cached'', Some ''1'']"
    unfolding f map_append ids by (simp add: print_header_def)
  from t have "length (print_loop ?pm ?ins) = length ?ins"
    by blast
  then have "print_loop ?pm ?ins ! 1 \<in> set (print_loop ?pm ?ins)"
    by (simp del: print_loop.simps)
  with t have single: "\<exists>arg. print_loop ?pm ?ins ! 1 = Printf ''%v\<newline>'' [arg]"
    by blast
  from m shown single show ?thesis by blast
qed

section \<open>The order of the steps\<close>

lemma main_cases [case_names invalid build_fails deliver_fails success]:
  obtains
    err where "validateConfig (main_config w) = Some err"
      and "main w =
        (map Env (main_reads w) @ [Fprintf_Stderr ''Error: %v\<newline>'' [arg_error err]], Exit 1)"
  | err where "validateConfig (main_config w) = None"
      and "builder_Build w (main_config w) = Some err"
      and "main w =
        (map Env (main_reads w) @ [NewPromotedDeliveryClient_call (main_config w),
           Println ''Error initializing PromotedDeliveryClient''], Panic err)"
  | req err where "validateConfig (main_config w) = None"
      and "builder_Build w (main_config w) = None"
      and "main_request w = Inr req"
      and "client_Deliver w (main_config w) req = Inl err"
      and "main w =
        (map Env (main_reads w) @ [NewPromotedDeliveryClient_call (main_config w),
           Deliver_call req, Println ''Delivery called failed''], Panic err)"
  | req response where "validateConfig (main_config w) = None"
      and "builder_Build w (main_config w) = None"
      and "main_request w = Inr req"
      and "client_Deliver w (main_config w) req = Inr response"
      and "main w =
        (map Env (main_reads w) @ [NewPromotedDeliveryClient_call (main_config w),
           Deliver_call req] @ print_header response @
           print_loop (productsMap_loop Map.empty getProducts)
             (delivery_Response.Insertion (Response response)), Returned)"
proof -
  obtain req where r: "main_request w = Inr req"
    using main_request_ok by blast
  show thesis
  proof (cases "validateConfig (main_config w)")
    case (Some err)
    with main_invalid [of w err] that(1) show thesis by blast
  next
    case None
    note v = None
    show thesis
    proof (cases "builder_Build w (main_config w)")
      case (Some err)
      with v main_build_fails [of w err] that(2) show thesis by blast
    next
      case None
      note b = None
      show thesis
      proof (cases "client_Deliver w (main_config w) req")
        case (Inl err)
        with v b r main_deliver_fails [of w req err] that(3) show thesis by blast
      next
        case (Inr response)
        with v b r main_success [of w req response] that(4) show thesis by blast
      qed
    qed
  qed
qed

lemma steps_append: "steps (xs @ ys) = steps xs @ steps ys"
  by (induction xs) (simp_all split: option.splits)

lemma steps_Env: "steps (map Env rs) = replicate (length rs) 0"
  by (induction rs) simp_all

lemma steps_print_loop: "steps (print_loop pm ins) = replicate (length ins) 3"
  by (induction ins) (simp_all split: option.splits)

lemma steps_print_header: "steps (print_header response) = [3, 3, 3]"
  by (simp add: print_header_def)

lemma length_main_reads: "length (main_reads w) = 7"
  by (simp add: main_reads_def load_config_reads)

lemma call_not_in_reads:
  "NewPromotedDeliveryClient_call c \<notin> set (map Env rs)" "Deliver_call req \<notin> set (map Env rs)"
  by auto

lemma call_not_in_prints:
  "NewPromotedDeliveryClient_call c \<notin> set (print_header response)"
  "Deliver_call req \<notin> set (print_header response)"
  "NewPromotedDeliveryClient_call c \<notin> set (print_loop pm ins)"
  "Deliver_call req \<notin> set (print_loop pm ins)"
  using print_loop_single_prints [of _ pm ins] by (auto simp add: print_header_def)

lemma main_steps:
  "steps (fst (main w)) = replicate 7 0
   \<or> steps (fst (main w)) = replicate 7 0 @ [1]
   \<or> steps (fst (main w)) = replicate 7 0 @ [1, 2]
   \<or> (\<exists>n. steps (fst (main w)) = replicate 7 0 @ [1, 2] @ replicate n 3)"
proof (cases rule: main_cases [of w])
  case (invalid err)
  then show ?thesis by (simp add: steps_append steps_Env length_main_reads)
next
  case (build_fails err)
  then show ?thesis by (simp add: steps_append steps_Env length_main_reads)
next
  case (deliver_fails req err)
  then show ?thesis by (simp add: steps_append steps_Env length_main_reads)
next
  case (success req response)
  have "steps (fst (main w)) = replicate 7 0 @ [1, 2] @
     replicate (3 + length (delivery_Response.Insertion (Response response))) 3"
    unfolding success(5)
    by (simp add: steps_append steps_Env length_main_reads steps_print_header steps_print_loop
        replicate_add numeral_3_eq_3)
  then show ?thesis by blast
qed

lemma sorted_main_steps: "sorted (steps (fst (main w)))"
  using main_steps [of w] by (auto simp add: sorted_append)

lemma count_list_replicate_other: "a \<noteq> b \<Longrightarrow> count_list (replicate n a) b = 0"
  by (induction n) simp_all

lemma deliver_at_most_once: "count_list (steps (fst (main w))) 2 \<le> 1"
  using main_steps [of w] by (auto simp add: count_list_replicate_other)

lemma client_built_after_validation:
  "NewPromotedDeliveryClient_call c \<in> set (fst (main w))
     \<longrightarrow> c = main_config w \<and> validateConfig c = None"
proof (cases rule: main_cases [of w])
  case (invalid err)
  then show ?thesis by auto
next
  case (build_fails err)
  then show ?thesis by auto
next
  case (deliver_fails req err)
  then show ?thesis by auto
next
  case (success req response)
  then show ?thesis by (auto simp add: call_not_in_prints)
qed

lemma deliver_after_build:
  "Deliver_call req \<in> set (fst (main w))
     \<longrightarrow> main_request w = Inr req \<and> builder_Build w (main_config w) = None
         \<and> validateConfig (main_config w) = None"
proof (cases rule: main_cases [of w])
  case (invalid err)
  then show ?thesis by auto
next
  case (build_fails err)
  then show ?thesis by auto
next
  case (deliver_fails req' err)
  then show ?thesis by auto
next
  case (success req' response)
  then show ?thesis by (auto simp add: call_not_in_prints)
qed

lemma output_after_delivery:
  "3 \<in> set (steps (fst (main w)))
     \<longrightarrow> (\<exists>req response. Deliver_call req \<in> set (fst (main w))
           \<and> client_Deliver w (main_config w) req = Inr response)"
proof (cases rule: main_cases [of w])
  case (invalid err)
  then show ?thesis by (auto simp add: steps_append steps_Env)
next
  case (build_fails err)
  then show ?thesis by (auto simp add: steps_append steps_Env)
next
  case (deliver_fails req err)
  then show ?thesis by (auto simp add: steps_append steps_Env)
next
  case (success req response)
  have "Deliver_call req \<in> set (fst (main w))"
    unfolding success(5) by simp
  with success(4) show ?thesis by blast
qed

lemma stop_at_validation:
  "validateConfig (main_config w) = Some err
     \<longrightarrow> snd (main w) = Exit 1 \<and> set (steps (fst (main w))) \<subseteq> {0}"
  by (auto simp add: main_invalid steps_append steps_Env)

lemma stop_at_build:
  "validateConfig (main_config w) = None \<and> builder_Build w (main_config w) = Some err
     \<longrightarrow> snd (main w) = Panic err \<and> set (steps (fst (main w))) \<subseteq> {0, 1}"
  by (auto simp add: main_build_fails steps_append steps_Env)

lemma stop_at_deliver:
  "validateConfig (main_config w) = None \<and> builder_Build w (main_config w) = None
     \<and> main_request w = Inr req \<and> client_Deliver w (main_config w) req = Inl err
     \<longrightarrow> snd (main w) = Panic err \<and> set (steps (fst (main w))) \<subseteq> {0, 1, 2}"
  by (auto simp add: main_deliver_fails steps_append steps_Env)

lemma reads_come_first:
  "\<exists>rest. fst (main w) = map Env (main_reads w) @ rest \<and> 0 \<notin> set (steps rest)"
proof (cases rule: main_cases [of w])
  case (invalid err)
  then show ?thesis by simp
next
  case (build_fails err)
  then show ?thesis by simp
next
  case (deliver_fails req err)
  then show ?thesis by simp
next
  case (success req response)
  have "0 \<notin> set (steps ([NewPromotedDeliveryClient_call (main_config w), Deliver_call req] @
           print_header response @
           print_loop (productsMap_loop Map.empty getProducts)
             (delivery_Response.Insertion (Response response))))"
    by (simp add: steps_append steps_print_header steps_print_loop)
  with success(5) show ?thesis by auto
qed

lemma returns_iff_all_succeed:
  "snd (main w) = Returned \<longleftrightarrow>
     validateConfig (main_config w) = None \<and> builder_Build w (main_config w) = None
     \<and> (\<exists>req response. main_request w = Inr req
           \<and> client_Deliver w (main_config w) req = Inr response)"
proof (cases rule: main_cases [of w])
  case (invalid err)
  then show ?thesis by simp
next
  case (build_fails err)
  then show ?thesis by simp
next
  case (deliver_fails req err)
  then show ?thesis by simp
next
  case (success req response)
  then show ?thesis by simp
qed

text \<open>
  C6. In every run the events of the steps come in the order loading the configuration,
  building the client, calling \<open>Deliver\<close>, printing the response, and the run begins
  with the seven environment reads of the configuration. The client is built
  only from the loaded configuration and only after \<open>validateConfig\<close> accepted it;
  \<open>Deliver\<close> is called at most once, with the request that \<open>newTestRequest\<close> built, and
  only after the client was built; response output is printed only after a \<open>Deliver\<close>
  call that returned a response. When validation fails the run exits with status 1 and
  has no event of a later step; when the client builder fails it panics with no
  \<open>Deliver\<close> call and no response output; when \<open>Deliver\<close> fails it panics with no
  response output. The run returns normally exactly when every step succeeded.
\<close>

theorem main_linear_script:
  "sorted (steps (fst (main w)))
   \<and> (\<exists>rest. fst (main w) = map Env (main_reads w) @ rest \<and> 0 \<notin> set (steps rest))
   \<and> length (main_reads w) = 7
   \<and> count_list (steps (fst (main w))) 2 \<le> 1
   \<and> (\<forall>c. NewPromotedDeliveryClient_call c \<in> set (fst (main w))
         \<longrightarrow> c = main_config w \<and> validateConfig c = None)
   \<and> (\<forall>req. Deliver_call req \<in> set (fst (main w))
         \<longrightarrow> main_request w = Inr req \<and> builder_Build w (main_config w) = None
             \<and> validateConfig (main_config w) = None)
   \<and> (3 \<in> set (steps (fst (main w)))
         \<longrightarrow> (\<exists>req response. Deliver_call req \<in> set (fst (main w))
               \<and> client_Deliver w (main_config w) req = Inr response))
   \<and> (\<forall>err. validateConfig (main_config w) = Some err
         \<longrightarrow> snd (main w) = Exit 1 \<and> set (steps (fst (main w))) \<subseteq> {0})
   \<and> (\<forall>err. validateConfig (main_config w) = None
             \<and> builder_Build w (main_config w) = Some err
         \<longrightarrow> snd (main w) = Panic err \<and> set (steps (fst (main w))) \<subseteq> {0, 1})
   \<and> (\<forall>req err. validateConfig (main_config w) = None
             \<and> builder_Build w (main_config w) = None
             \<and> main_request w = Inr req \<and> client_Deliver w (main_config w) req = Inl err
         \<longrightarrow> snd (main w) = Panic err \<and> set (steps (fst (main w))) \<subseteq> {0, 1, 2})
   \<and> (snd (main w) = Returned \<longleftrightarrow>
         validateConfig (main_config w) = None \<and> builder_Build w (main_config w) = None
         \<and> (\<exists>req response. main_request w = Inr req
               \<and> client_Deliver w (main_config w) req = Inr response))"
  using sorted_main_steps [of w] reads_come_first [of w] length_main_reads [of w]
    deliver_at_most_once [of w]
    client_built_after_validation [of _ w] deliver_after_build [of _ w]
    output_after_delivery [of w] stop_at_validation [of w] stop_at_build [of w]
    stop_at_deliver [of w] returns_iff_all_succeed [of w]
  by blast

text \<open>
  The theorem on four runs: an empty environment, a client builder that fails, a
  \<open>Deliver\<close> that fails, and a run in which every step succeeds.
\<close>

theorem main_linear_script_witness:
  "snd (main \<lparr>os_environ = Map.empty,
         strconv_ParseFloat = Inl \<circ> errors_New,
         go_float64 = (id :: int \<Rightarrow> int),
         builder_Build = Map.empty,
         client_Deliver = (\<lambda>c req. Inl (errors_New ''timeout''))\<rparr>) = Exit 1
   \<and> snd (main \<lparr>os_environ =
           [''METRICS_API_ENDPOINT_URL'' \<mapsto> ''m'', ''METRICS_API_KEY'' \<mapsto> ''mk'',
            ''DELIVERY_API_ENDPOINT_URL'' \<mapsto> ''d'', ''DELIVERY_API_KEY'' \<mapsto> ''dk''],
         strconv_ParseFloat = Inl \<circ> errors_New,
         go_float64 = (id :: int \<Rightarrow> int),
         builder_Build = (\<lambda>c. Some (errors_New ''no client'')),
         client_Deliver = (\<lambda>c req. Inl (errors_New ''timeout''))\<rparr>)
       = Panic (errors_New ''no client'')
   \<and> snd (main \<lparr>os_environ =
           [''METRICS_API_ENDPOINT_URL'' \<mapsto> ''m'', ''METRICS_API_KEY'' \<mapsto> ''mk'',
            ''DELIVERY_API_ENDPOINT_URL'' \<mapsto> ''d'', ''DELIVERY_API_KEY'' \<mapsto> ''dk''],
         strconv_ParseFloat = Inl \<circ> errors_New,
         go_float64 = (id :: int \<Rightarrow> int),
         builder_Build = Map.empty,
         client_Deliver = (\<lambda>c req. Inl (errors_New ''timeout''))\<rparr>)
       = Panic (errors_New ''timeout'')
   \<and> snd (main \<lparr>os_environ =
           [''METRICS_API_ENDPOINT_URL'' \<mapsto> ''m'', ''METRICS_API_KEY'' \<mapsto> ''mk'',
            ''DELIVERY_API_ENDPOINT_URL'' \<mapsto> ''d'', ''DELIVERY_API_KEY'' \<mapsto> ''dk''],
         strconv_ParseFloat = Inl \<circ> errors_New,
         go_float64 = (id :: int \<Rightarrow> int),
         builder_Build = Map.empty,
         client_Deliver = (\<lambda>c req. Inr
           \<lparr>Response = \<lparr>delivery_Response.Insertion = delivery_Request.Insertion (Request req)\<rparr>,
            ClientRequestID = ''r1'', ExecutionServer = ''API''\<rparr>)\<rparr>)
       = Returned
   \<and> (\<exists>req. Deliver_call req \<in> set (fst (main \<lparr>os_environ =
           [''METRICS_API_ENDPOINT_URL'' \<mapsto> ''m'', ''METRICS_API_KEY'' \<mapsto> ''mk'',
            ''DELIVERY_API_ENDPOINT_URL'' \<mapsto> ''d'', ''DELIVERY_API_KEY'' \<mapsto> ''dk''],
         strconv_ParseFloat = Inl \<circ> errors_New,
         go_float64 = (id :: int \<Rightarrow> int),
         builder_Build = Map.empty,
         client_Deliver = (\<lambda>c req. Inr
           \<lparr>Response = \<lparr>delivery_Response.Insertion = delivery_Request.Insertion (Request req)\<rparr>,
            ClientRequestID = ''r1'', ExecutionServer = ''API''\<rparr>)\<rparr>)))"
proof -
  let ?env = "[''METRICS_API_ENDPOINT_URL'' \<mapsto> ''m'', ''METRICS_API_KEY'' \<mapsto> ''mk'',
            ''DELIVERY_API_ENDPOINT_URL'' \<mapsto> ''d'', ''DELIVERY_API_KEY'' \<mapsto> ''dk'']"
  let ?w1 = "\<lparr>os_environ = Map.empty,
         strconv_ParseFloat = Inl \<circ> errors_New,
         go_float64 = (id :: int \<Rightarrow> int),
         builder_Build = Map.empty,
         client_Deliver = (\<lambda>c req. Inl (errors_New ''timeout''))\<rparr>"
  let ?w2 = "\<lparr>os_environ = ?env,
         strconv_ParseFloat = Inl \<circ> errors_New,
         go_float64 = (id :: int \<Rightarrow> int),
         builder_Build = (\<lambda>c. Some (errors_New ''no client'')),
         client_Deliver = (\<lambda>c req. Inl (errors_New ''timeout''))\<rparr>"
  let ?w3 = "\<lparr>os_environ = ?env,
         strconv_ParseFloat = Inl \<circ> errors_New,
         go_float64 = (id :: int \<Rightarrow> int),
         builder_Build = Map.empty,
         client_Deliver = (\<lambda>c req. Inl (errors_New ''timeout''))\<rparr>"
  let ?w4 = "\<lparr>os_environ = ?env,
         strconv_ParseFloat = Inl \<circ> errors_New,
         go_float64 = (id :: int \<Rightarrow> int),
         builder_Build = Map.empty,
         client_Deliver = (\<lambda>c req. Inr
           \<lparr>Response = \<lparr>delivery_Response.Insertion = delivery_Request.Insertion (Request req)\<rparr>,
            ClientRequestID = ''r1'', ExecutionServer = ''API''\<rparr>)\<rparr>"
  have v1: "validateConfig (main_config ?w1)
              = Some (errors_New ''metricsApiEndpointUrl needs to be specified'')"
    by (simp add: main_config_def load_config_value os_Getenv_def validateConfig_def)
  with main_linear_script [of ?w1] have a: "snd (main ?w1) = Exit 1"
    by blast
  have v2: "validateConfig (main_config ?w2) = None
              \<and> builder_Build ?w2 (main_config ?w2) = Some (errors_New ''no client'')"
    by (simp add: main_config_def load_config_value os_Getenv_def validateConfig_def)
  with main_linear_script [of ?w2] have b: "snd (main ?w2) = Panic (errors_New ''no client'')"
    by blast
  obtain req3 where r3: "main_request ?w3 = Inr req3"
    using main_request_ok by blast
  have v3: "validateConfig (main_config ?w3) = None
              \<and> builder_Build ?w3 (main_config ?w3) = None
              \<and> client_Deliver ?w3 (main_config ?w3) req3 = Inl (errors_New ''timeout'')"
    by (simp add: main_config_def load_config_value os_Getenv_def validateConfig_def)
  with r3 main_linear_script [of ?w3] have c: "snd (main ?w3) = Panic (errors_New ''timeout'')"
    by blast
  obtain req4 where r4: "main_request ?w4 = Inr req4"
    using main_request_ok by blast
  have v4: "validateConfig (main_config ?w4) = None
              \<and> builder_Build ?w4 (main_config ?w4) = None
              \<and> (\<exists>response. client_Deliver ?w4 (main_config ?w4) req4 = Inr response)"
    by (simp add: main_config_def load_config_value os_Getenv_def validateConfig_def)
  with r4 main_linear_script [of ?w4] have d: "snd (main ?w4) = Returned"
    by blast
  from v4 obtain response4 where
    "client_Deliver ?w4 (main_config ?w4) req4 = Inr response4"
    by blast
  with v4 r4 have "steps (fst (main ?w4)) =
      steps (map Env (main_reads ?w4) @ [NewPromotedDeliveryClient_call (main_config ?w4),
        Deliver_call req4] @ print_header response4 @
        print_loop (productsMap_loop Map.empty getProducts)
          (delivery_Response.Insertion (Response response4)))"
    by (simp only: main_success fst_conv)
  then have "3 \<in> set (steps (fst (main ?w4)))"
    by (simp only: steps_append steps_print_header set_append) simp
  with main_linear_script [of ?w4] have e: "\<exists>req. Deliver_call req \<in> set (fst (main ?w4))"
    by blast
  from a b c d e show ?thesis by blast
qed

end
